theory Spec2Isabelle
  imports Complex_Main "HOL-Library.Dlist"
begin

section \<open>The model status cache of \<^verbatim>\<open>test.py\<close>\<close>

text \<open>
  \<^verbatim>\<open>MODEL_STATUS_CACHE\<close> is a dictionary of five buckets. The three expiring buckets are
  dictionaries keyed by model name, \<^verbatim>\<open>not_found\<close> and \<^verbatim>\<open>working\<close> are sets.
  Time stamps are the values of \<^verbatim>\<open>time.time()\<close>, modelled as real numbers.
  The \<^verbatim>\<open>working\<close> set is later listed (\<^verbatim>\<open>list(...)\<close>), so it is kept as a duplicate-free
  list. Python lists a set in an unspecified order; the model lists the newest member
  first, and the properties below that speak of a candidate list with working models
  hold for every order of the list.
\<close>

record model_status_cache =
  quota_exhausted :: "string \<rightharpoonup> real"
  rate_limited :: "string \<rightharpoonup> real"
  not_found :: "string set"
  other_errors :: "string \<rightharpoonup> string \<times> real"
  working :: "string dlist"

text \<open>\<^verbatim>\<open>CACHE_EXPIRATION\<close>, one constant per key (seconds).\<close>

definition CACHE_EXPIRATION_quota_exhausted :: real where
  "CACHE_EXPIRATION_quota_exhausted = 3600"

definition CACHE_EXPIRATION_rate_limited :: real where
  "CACHE_EXPIRATION_rate_limited = 300"

definition CACHE_EXPIRATION_other_errors :: real where
  "CACHE_EXPIRATION_other_errors = 1800"

text \<open>Python's \<^verbatim>\<open>int(x)\<close> on a float truncates towards zero.\<close>

definition py_int :: "real \<Rightarrow> int" where
  "py_int x = (if x < 0 then \<lceil>x\<rceil> else \<lfloor>x\<rfloor>)"

text \<open>
  The second component of the result of \<^verbatim>\<open>is_model_cached_as_failed\<close>: the bucket that
  excludes the model and, for the expiring buckets, the minutes in \<^verbatim>\<open>(cached Nm ago)\<close>.
\<close>

datatype reason =
    Reason_not_found
  | Reason_quota_exhausted int
  | Reason_rate_limited int
  | Reason_other_error int

text \<open>
  \<^verbatim>\<open>is_model_cached_as_failed\<close> is a chain of four checks; each of the last three deletes
  an expired entry and falls through to the next. The chain is written from its end:
  \<open>check_other_errors\<close> is lines 84-92, \<open>check_rate_limited\<close> lines 75-81 followed by it,
  \<open>check_quota_exhausted\<close> lines 66-72 followed by that. \<open>now\<close> is the value
  \<^verbatim>\<open>time.time()\<close> returned on entry.
\<close>

definition check_other_errors ::
  "real \<Rightarrow> string \<Rightarrow> model_status_cache \<Rightarrow> (bool \<times> reason option) \<times> model_status_cache" where
  "check_other_errors now model_name c =
     (case other_errors c model_name of
        Some (error_msg, cached_time) \<Rightarrow>
          if now - cached_time < CACHE_EXPIRATION_other_errors
          then ((True, Some (Reason_other_error (py_int ((now - cached_time) / 60)))), c)
          else ((False, None), c\<lparr>other_errors := (other_errors c)(model_name := None)\<rparr>)
      | None \<Rightarrow> ((False, None), c))"

definition check_rate_limited ::
  "real \<Rightarrow> string \<Rightarrow> model_status_cache \<Rightarrow> (bool \<times> reason option) \<times> model_status_cache" where
  "check_rate_limited now model_name c =
     (case rate_limited c model_name of
        Some cached_time \<Rightarrow>
          if now - cached_time < CACHE_EXPIRATION_rate_limited
          then ((True, Some (Reason_rate_limited (py_int ((now - cached_time) / 60)))), c)
          else check_other_errors now model_name
                 (c\<lparr>rate_limited := (rate_limited c)(model_name := None)\<rparr>)
      | None \<Rightarrow> check_other_errors now model_name c)"

definition check_quota_exhausted ::
  "real \<Rightarrow> string \<Rightarrow> model_status_cache \<Rightarrow> (bool \<times> reason option) \<times> model_status_cache" where
  "check_quota_exhausted now model_name c =
     (case quota_exhausted c model_name of
        Some cached_time \<Rightarrow>
          if now - cached_time < CACHE_EXPIRATION_quota_exhausted
          then ((True, Some (Reason_quota_exhausted (py_int ((now - cached_time) / 60)))), c)
          else check_rate_limited now model_name
                 (c\<lparr>quota_exhausted := (quota_exhausted c)(model_name := None)\<rparr>)
      | None \<Rightarrow> check_rate_limited now model_name c)"

definition is_model_cached_as_failed ::
  "real \<Rightarrow> string \<Rightarrow> model_status_cache \<Rightarrow> (bool \<times> reason option) \<times> model_status_cache" where
  "is_model_cached_as_failed now model_name c =
     (if model_name \<in> not_found c then ((True, Some Reason_not_found), c)
      else check_quota_exhausted now model_name c)"

text \<open>
  \<^verbatim>\<open>cache_model_failure\<close> dispatches on the string \<^verbatim>\<open>error_type\<close>; a string that is none
  of the four leaves the cache as it is (the \<^verbatim>\<open>if/elif\<close> chain has no \<^verbatim>\<open>else\<close>).
\<close>

definition cache_model_failure ::
  "real \<Rightarrow> string \<Rightarrow> string \<Rightarrow> string \<Rightarrow> model_status_cache \<Rightarrow> model_status_cache" where
  "cache_model_failure now model_name error_type error_message c =
     (if error_type = ''not_found''
      then c\<lparr>not_found := insert model_name (not_found c)\<rparr>
      else if error_type = ''quota_exhausted''
      then c\<lparr>quota_exhausted := (quota_exhausted c)(model_name \<mapsto> now)\<rparr>
      else if error_type = ''rate_limited''
      then c\<lparr>rate_limited := (rate_limited c)(model_name \<mapsto> now)\<rparr>
      else if error_type = ''other_error''
      then c\<lparr>other_errors := (other_errors c)(model_name \<mapsto> (error_message, now))\<rparr>
      else c)"

definition cache_model_success :: "string \<Rightarrow> model_status_cache \<Rightarrow> model_status_cache" where
  "cache_model_success model_name c =
     c\<lparr>working := Dlist.insert model_name (working c),
       quota_exhausted := (quota_exhausted c)(model_name := None),
       rate_limited := (rate_limited c)(model_name := None),
       other_errors := (other_errors c)(model_name := None)\<rparr>"

text \<open>\<^verbatim>\<open>reset_model_cache\<close> installs the empty cache.\<close>

definition reset_model_cache :: model_status_cache where
  "reset_model_cache =
     \<lparr>quota_exhausted = Map.empty, rate_limited = Map.empty, not_found = {},
      other_errors = Map.empty, working = Dlist.empty\<rparr>"

text \<open>
  \<^verbatim>\<open>clear_specific_cache\<close>: an unknown bucket name is refused (\<open>None\<close>), a known one
  is emptied.
\<close>

definition clear_specific_cache :: "string \<Rightarrow> model_status_cache \<Rightarrow> model_status_cache option" where
  "clear_specific_cache cache_type c =
     (if cache_type = ''quota_exhausted'' then Some (c\<lparr>quota_exhausted := Map.empty\<rparr>)
      else if cache_type = ''rate_limited'' then Some (c\<lparr>rate_limited := Map.empty\<rparr>)
      else if cache_type = ''other_errors'' then Some (c\<lparr>other_errors := Map.empty\<rparr>)
      else if cache_type = ''not_found'' then Some (c\<lparr>not_found := {}\<rparr>)
      else if cache_type = ''working'' then Some (c\<lparr>working := Dlist.empty\<rparr>)
      else None)"

text \<open>Membership in the working set (\<^verbatim>\<open>model in MODEL_STATUS_CACHE["working"]\<close>).\<close>

definition is_working :: "string \<Rightarrow> model_status_cache \<Rightarrow> bool" where
  "is_working model_name c = (model_name \<in> set (list_of_dlist (working c)))"

section \<open>Strings\<close>

text \<open>
  The string operations the code uses. Strings are lists of characters; \<^verbatim>\<open>str.lower()\<close>
  is modelled on the ASCII letters and leaves every other character as it is.
\<close>

definition lower_char :: "char \<Rightarrow> char" where
  "lower_char c =
     (let n = (of_char c :: nat) in if 65 \<le> n \<and> n \<le> 90 then char_of (n + 32) else c)"

definition lower :: "string \<Rightarrow> string" where
  "lower s = map lower_char s"

text \<open>\<^verbatim>\<open>sub in s\<close> for strings: \<open>sub\<close> occurs in \<open>s\<close> as a contiguous block.\<close>

fun str_contains :: "string \<Rightarrow> string \<Rightarrow> bool" where
  "str_contains sub [] = (sub = [])"
| "str_contains sub (c # cs) = (take (length sub) (c # cs) = sub \<or> str_contains sub cs)"

text \<open>\<^verbatim>\<open>any(k in s for k in keywords)\<close>.\<close>

definition any_in :: "string list \<Rightarrow> string \<Rightarrow> bool" where
  "any_in keywords s = list_ex (\<lambda>k. str_contains k s) keywords"

text \<open>\<^verbatim>\<open>s.split(sep)\<close> for a separator of one character: the result is never empty.\<close>

fun split :: "char \<Rightarrow> string \<Rightarrow> string list" where
  "split sep [] = [[]]"
| "split sep (c # cs) =
     (if c = sep then [] # split sep cs
      else (case split sep cs of w # ws \<Rightarrow> (c # w) # ws | [] \<Rightarrow> [[c]]))"

text \<open>\<^verbatim>\<open>sep.join(ws)\<close>.\<close>

fun join :: "string \<Rightarrow> string list \<Rightarrow> string" where
  "join sep [] = []"
| "join sep [w] = w"
| "join sep (w # v # ws) = w @ sep @ join sep (v # ws)"

text \<open>Truth value of a string, and of a variable that holds \<^verbatim>\<open>None\<close> or a string.\<close>

definition truthy :: "string option \<Rightarrow> bool" where
  "truthy v = (case v of None \<Rightarrow> False | Some s \<Rightarrow> s \<noteq> [])"

section \<open>Model discovery at start-up\<close>

record model_info =
  full_name :: string
  short_name :: string
  display_name :: string

text \<open>The entry appended to \<^verbatim>\<open>AVAILABLE_MODELS\<close> for a listed model (lines 141-149).\<close>

definition model_entry :: "string \<Rightarrow> model_info" where
  "model_entry model_name =
     \<lparr>full_name = model_name,
      short_name = join ''-'' (butlast (split CHR ''-'' (last (split CHR ''/'' model_name)))),
      display_name = last (split CHR ''/'' model_name)\<rparr>"

definition priority_models :: "string list" where
  "priority_models =
     [''gemini-2.5-flash'', ''gemini-2.5-pro'', ''gemini-2.0-flash'',
      ''gemini-2.0-flash-001'', ''gemini-2.0-flash-exp'']"

definition fallback_candidates :: "string list" where
  "fallback_candidates =
     [''gemini-2.0-flash'', ''gemini-2.5-pro'', ''gemini-2.0-flash-001'',
      ''gemini-flash-latest'', ''gemini-pro-latest'']"

text \<open>
  The two nested search loops (lines 166-172 and 183-189). The inner loop assigns the
  full name of the first entry that matches and stops; the outer loop stops once the
  variable is truthy. \<open>cur\<close> is the value of the variable so far.
\<close>

fun find_primary :: "string list \<Rightarrow> model_info list \<Rightarrow> string option \<Rightarrow> string option" where
  "find_primary [] ms cur = cur"
| "find_primary (priority # ps) ms cur =
     (let cur' = (case find (\<lambda>m. str_contains priority (lower (display_name m))) ms of
                    Some m \<Rightarrow> Some (full_name m)
                  | None \<Rightarrow> cur)
      in if truthy cur' then cur' else find_primary ps ms cur')"

fun find_fallback ::
  "string option \<Rightarrow> string list \<Rightarrow> model_info list \<Rightarrow> string option \<Rightarrow> string option" where
  "find_fallback primary [] ms cur = cur"
| "find_fallback primary (candidate # cs) ms cur =
     (let cur' = (case find (\<lambda>m. str_contains candidate (lower (display_name m)) \<and>
                              Some (full_name m) \<noteq> primary) ms of
                    Some m \<Rightarrow> Some (full_name m)
                  | None \<Rightarrow> cur)
      in if truthy cur' then cur' else find_fallback primary cs ms cur')"

text \<open>The three module-level variables the executor reads.\<close>

record config =
  PRIMARY_MODEL :: string
  FALLBACK_MODEL :: string
  AVAILABLE_MODELS :: "model_info list"

text \<open>
  Start-up (lines 135-205). \<open>names\<close> are the model names \<^verbatim>\<open>client.models.list()\<close>
  yielded; \<open>raised\<close> says that the listing then raised. The entries appended before
  the exception stay in \<^verbatim>\<open>AVAILABLE_MODELS\<close>, and the handler installs the two defaults.
\<close>

definition startup :: "string list \<Rightarrow> bool \<Rightarrow> config" where
  "startup names raised =
     (let available = map model_entry names in
      if raised
      then \<lparr>PRIMARY_MODEL = ''models/gemini-2.5-flash'',
            FALLBACK_MODEL = ''models/gemini-2.0-flash'',
            AVAILABLE_MODELS = available\<rparr>
      else
        let primary = find_primary priority_models available None;
            fallback = find_fallback primary fallback_candidates available None;
            primary' = (if \<not> truthy primary then ''models/gemini-2.5-flash'' else the primary);
            fallback' = (if \<not> truthy fallback then ''models/gemini-2.0-flash'' else the fallback)
        in \<lparr>PRIMARY_MODEL = primary', FALLBACK_MODEL = fallback',
            AVAILABLE_MODELS = available\<rparr>)"

section \<open>The process state\<close>

text \<open>
  The executor sleeps and calls the remote API. Both are made visible in a trace:
  \<open>Request m\<close> for a call of \<^verbatim>\<open>generate_content\<close> on model \<open>m\<close>, \<open>Sleep site d\<close>
  for \<^verbatim>\<open>time.sleep(d)\<close> at one of the two places that sleep, and \<open>Returned r\<close> for a
  return of \<^verbatim>\<open>call_gemini_with_model_iteration\<close> (\<open>r\<close> the model used, or \<open>None\<close>).
\<close>

datatype sleep_site = Throttle | Backoff

datatype event = Request string | Sleep sleep_site real | Returned "string option"

text \<open>
  The state: the cache, the deque \<^verbatim>\<open>request_times\<close>, the clock \<^verbatim>\<open>time.time()\<close> reads,
  the number of remote calls made so far, and the trace. \<^verbatim>\<open>time.sleep(d)\<close> advances the
  clock by \<open>d\<close>; a remote call advances it by the time the call takes.
\<close>

record world =
  MODEL_STATUS_CACHE :: model_status_cache
  request_times :: "real list"
  clock :: real
  calls :: nat
  events :: "event list"

definition time_sleep :: "sleep_site \<Rightarrow> real \<Rightarrow> world \<Rightarrow> world" where
  "time_sleep site d w = w\<lparr>clock := clock w + d, events := events w @ [Sleep site d]\<rparr>"

section \<open>The request pacer\<close>

definition MIN_REQUEST_INTERVAL :: real where
  "MIN_REQUEST_INTERVAL = 5"

text \<open>\<^verbatim>\<open>deque(maxlen=15).append(t)\<close>: the deque keeps its last 15 elements.\<close>

definition deque_append :: "real \<Rightarrow> real list \<Rightarrow> real list" where
  "deque_append t ts = drop (length (ts @ [t]) - 15) (ts @ [t])"

text \<open>The loop of lines 412-413 pops from the left while the leftmost entry is older than a minute.\<close>

fun popleft_old :: "real \<Rightarrow> real list \<Rightarrow> real list" where
  "popleft_old now [] = []"
| "popleft_old now (t # ts) = (if now - t > 60 then popleft_old now ts else t # ts)"

definition throttle_requests :: "world \<Rightarrow> world" where
  "throttle_requests w =
     (let now = clock w;
          times = popleft_old now (request_times w);
          w1 = (if times \<noteq> []
                then (let time_since_last = now - last times in
                      if time_since_last < MIN_REQUEST_INTERVAL
                      then time_sleep Throttle (MIN_REQUEST_INTERVAL - time_since_last) w
                      else w)
                else w)
      in w1\<lparr>request_times := deque_append (clock w1) times\<rparr>)"

section \<open>The candidate list\<close>

text \<open>The capability test of lines 465-467, on the lower-cased display name.\<close>

definition text_generation_model :: "string \<Rightarrow> bool" where
  "text_generation_model dn =
     (any_in [''gemini'', ''gemma''] dn \<and>
      \<not> any_in [''embedding'', ''imagen'', ''veo'', ''tts'', ''audio''] dn)"

text \<open>One turn of the loop over \<^verbatim>\<open>AVAILABLE_MODELS\<close> (lines 461-468).\<close>

definition add_available :: "model_info \<Rightarrow> string list \<Rightarrow> string list" where
  "add_available info to_try =
     (let model_name = full_name info in
      if model_name \<notin> set to_try
      then (if text_generation_model (lower (display_name info))
            then to_try @ [model_name] else to_try)
      else to_try)"

text \<open>The list \<^verbatim>\<open>models_to_try\<close> before the cached failures are filtered out (lines 444-468).\<close>

definition models_to_try :: "config \<Rightarrow> model_status_cache \<Rightarrow> string list" where
  "models_to_try cfg c =
     (let working_models = list_of_dlist (working c);
          l1 = (if PRIMARY_MODEL cfg \<noteq> [] \<and> PRIMARY_MODEL cfg \<notin> set working_models
                then [PRIMARY_MODEL cfg] else []);
          l2 = l1 @ working_models;
          l3 = (if FALLBACK_MODEL cfg \<noteq> [] \<and> FALLBACK_MODEL cfg \<notin> set l2
                then l2 @ [FALLBACK_MODEL cfg] else l2)
      in fold add_available (AVAILABLE_MODELS cfg) l3)"

text \<open>
  The filter loop of lines 471-479: the models that pass, the skipped ones with their
  reasons, and the cache after the lazy deletions.
\<close>

fun filter_cached ::
  "real \<Rightarrow> string list \<Rightarrow> model_status_cache \<Rightarrow>
   (string list \<times> (string \<times> reason option) list) \<times> model_status_cache" where
  "filter_cached now [] c = (([], []), c)"
| "filter_cached now (model # ms) c =
     (case is_model_cached_as_failed now model c of
        ((is_failed, reason), c1) \<Rightarrow>
          (case filter_cached now ms c1 of
             ((kept, skipped), c2) \<Rightarrow>
               if is_failed then ((kept, (model, reason) # skipped), c2)
               else ((model # kept, skipped), c2)))"

section \<open>The executor\<close>

text \<open>
  The remote API is a parameter: \<open>gen n model contents\<close> is what the \<open>n\<close>-th remote call
  of the process does when it is made on \<open>model\<close> with \<open>contents\<close>: the time it takes and
  either the string of the exception it raises (\<open>Inl\<close>) or its response (\<open>Inr\<close>).
\<close>

type_synonym ('c, 'resp) backend = "nat \<Rightarrow> string \<Rightarrow> 'c \<Rightarrow> real \<times> (string + 'resp)"

definition generate_content ::
  "('c, 'resp) backend \<Rightarrow> string \<Rightarrow> 'c \<Rightarrow> world \<Rightarrow> (string + 'resp) \<times> world" where
  "generate_content gen model contents w =
     (case gen (calls w) model contents of
        (took, outcome) \<Rightarrow>
          (outcome, w\<lparr>clock := clock w + took, calls := calls w + 1,
                      events := events w @ [Request model]\<rparr>))"

text \<open>The three tests of lines 534-540 on the string of the exception.\<close>

definition is_rate_limit :: "string \<Rightarrow> bool" where
  "is_rate_limit error_str =
     any_in [''429'', ''resource_exhausted'', ''quota'', ''rate limit'', ''too many requests'']
       (lower error_str)"

definition is_not_found :: "string \<Rightarrow> bool" where
  "is_not_found error_str =
     any_in [''404'', ''not_found'', ''not found'', ''is not found''] (lower error_str)"

definition is_quota_exhausted :: "string \<Rightarrow> bool" where
  "is_quota_exhausted error_str = str_contains ''limit: 0'' (lower error_str)"

text \<open>
  The handler of lines 530-564 for a failed call on \<open>model\<close>, the \<open>model_index\<close>-th of
  \<open>n\<close> candidates (counted from 1).
\<close>

definition handle_error :: "string \<Rightarrow> string \<Rightarrow> nat \<Rightarrow> nat \<Rightarrow> world \<Rightarrow> world" where
  "handle_error model error_str model_index n w =
     (if is_not_found error_str
      then w\<lparr>MODEL_STATUS_CACHE :=
               cache_model_failure (clock w) model ''not_found'' [] (MODEL_STATUS_CACHE w)\<rparr>
      else if is_quota_exhausted error_str
      then w\<lparr>MODEL_STATUS_CACHE :=
               cache_model_failure (clock w) model ''quota_exhausted'' [] (MODEL_STATUS_CACHE w)\<rparr>
      else if is_rate_limit error_str
      then (let w1 = w\<lparr>MODEL_STATUS_CACHE :=
                cache_model_failure (clock w) model ''rate_limited'' [] (MODEL_STATUS_CACHE w)\<rparr>
            in if model_index < n then time_sleep Backoff 10 w1 else w1)
      else w\<lparr>MODEL_STATUS_CACHE :=
               cache_model_failure (clock w) model ''other_error'' (take 200 error_str)
                 (MODEL_STATUS_CACHE w)\<rparr>)"

text \<open>
  The loop of lines 509-564 over the candidates that are left, \<open>model_index\<close> being the
  index of the first of them: the result is the first response with the model that gave
  it, or \<open>None\<close> when the list is used up.
\<close>

fun try_models ::
  "('c, 'resp) backend \<Rightarrow> 'c \<Rightarrow> nat \<Rightarrow> nat \<Rightarrow> string list \<Rightarrow> world \<Rightarrow>
   ('resp \<times> string) option \<times> world" where
  "try_models gen contents model_index n [] w = (None, w)"
| "try_models gen contents model_index n (model # ms) w =
     (case generate_content gen model contents (throttle_requests w) of
        (Inr response, w1) \<Rightarrow>
          (Some (response, model),
           w1\<lparr>MODEL_STATUS_CACHE := cache_model_success model (MODEL_STATUS_CACHE w1)\<rparr>)
      | (Inl error_str, w1) \<Rightarrow>
          try_models gen contents (model_index + 1) n ms
            (handle_error model error_str model_index n w1))"

definition call_gemini_with_model_iteration ::
  "config \<Rightarrow> ('c, 'resp) backend \<Rightarrow> 'c \<Rightarrow> world \<Rightarrow> ('resp \<times> string) option \<times> world" where
  "call_gemini_with_model_iteration cfg gen contents w =
     (case filter_cached (clock w) (models_to_try cfg (MODEL_STATUS_CACHE w))
             (MODEL_STATUS_CACHE w) of
        ((filtered, skipped), c1) \<Rightarrow>
          if filtered = []
          then (None, w\<lparr>MODEL_STATUS_CACHE := c1, events := events w @ [Returned None]\<rparr>)
          else (case try_models gen contents 1 (length filtered) filtered
                       (w\<lparr>MODEL_STATUS_CACHE := c1\<rparr>) of
                  (r, w2) \<Rightarrow> (r, w2\<lparr>events := events w2 @ [Returned (map_option snd r)]\<rparr>)))"

section \<open>The handler of \<^verbatim>\<open>POST /message\<close>\<close>

text \<open>
  A response of the remote API, as the handler reads it: \<^verbatim>\<open>response.candidates\<close>,
  \<^verbatim>\<open>candidate.content\<close>, \<^verbatim>\<open>content.parts\<close>, \<^verbatim>\<open>part.text\<close>, \<^verbatim>\<open>part.function_call\<close>,
  \<^verbatim>\<open>function_call.name\<close> and \<^verbatim>\<open>function_call.args\<close>. Each of these attributes may be
  \<^verbatim>\<open>None\<close>. The arguments of a call are a mapping from strings to values, kept as the
  list of its items; the values \<open>'a\<close> and a tool's result \<open>'r\<close> are left open.
\<close>

record 'a fcall =
  name :: "string option"
  args :: "(string \<times> 'a) list option"

record 'a part =
  part_text :: "string option"
  function_call :: "'a fcall option"

record 'a content =
  parts :: "'a part list option"

record 'a candidate =
  content :: "'a content option"

record 'a response =
  candidates :: "'a candidate list option"

text \<open>The conversation sent to the remote API: a list of turns.\<close>

datatype ('a, 'r) content_part =
    Text string
  | Function_call "string option" "(string \<times> 'a) list"
  | Function_response "string option" 'r

record ('a, 'r) turn =
  role :: string
  turn_parts :: "('a, 'r) content_part list"

text \<open>
  The exceptions the handler's \<^verbatim>\<open>try\<close> block can raise: the \<^verbatim>\<open>raise\<close> of line 621;
  \<^verbatim>\<open>response.candidates\<close> on \<^verbatim>\<open>response = None\<close> (line 726); iterating
  \<^verbatim>\<open>response.candidates = None\<close>; \<^verbatim>\<open>candidate.content.parts\<close> on \<^verbatim>\<open>content = None\<close>;
  iterating \<^verbatim>\<open>content.parts = None\<close>; \<^verbatim>\<open>dict(function_call.args)\<close> on \<^verbatim>\<open>args = None\<close>;
  and \<^verbatim>\<open>execute_function(func_name, **func_args)\<close> with an argument named
  \<^verbatim>\<open>function_name\<close>, the name of the first parameter of \<^verbatim>\<open>execute_function\<close>.
\<close>

datatype error =
    No_available_models
  | NoneType_has_no_candidates
  | Candidates_is_None
  | Content_is_None
  | Parts_is_None
  | Args_is_None
  | Argument_named_function_name

text \<open>
  The handler's answer: the dictionary with \<^verbatim>\<open>success: True\<close>, the text, the tool calls and
  the iterations, or the dictionary of the \<^verbatim>\<open>except\<close> clause with \<^verbatim>\<open>success: False\<close>, whose
  \<^verbatim>\<open>tool_calls\<close> is the empty list.
\<close>

datatype ('a, 'r) reply =
    Reply_ok string "(string option \<times> (string \<times> 'a) list \<times> 'r) list" nat
  | Reply_error error

fun success :: "('a, 'r) reply \<Rightarrow> bool" where
  "success (Reply_ok t tc it) = True"
| "success (Reply_error e) = False"

fun tool_calls :: "('a, 'r) reply \<Rightarrow> (string option \<times> (string \<times> 'a) list \<times> 'r) list" where
  "tool_calls (Reply_ok t tc it) = tc"
| "tool_calls (Reply_error e) = []"

definition max_iterations :: nat where
  "max_iterations = 3"

text \<open>
  The body of the loops over the parts of a response (lines 644-683), on the variables
  \<^verbatim>\<open>final_text\<close>, \<^verbatim>\<open>has_function_call\<close>, \<^verbatim>\<open>tool_results\<close> and \<^verbatim>\<open>function_responses\<close>.
  \<open>exec\<close> is \<^verbatim>\<open>execute_function\<close> of \<^verbatim>\<open>mcp1.py\<close>, which returns a dictionary for
  every name and catches every exception of a tool.
\<close>

definition process_part ::
  "(string option \<Rightarrow> (string \<times> 'a) list \<Rightarrow> 'r) \<Rightarrow> 'a part \<Rightarrow>
   string \<times> bool \<times> (string option \<times> (string \<times> 'a) list \<times> 'r) list \<times> ('a, 'r) content_part list \<Rightarrow>
   error +
   string \<times> bool \<times> (string option \<times> (string \<times> 'a) list \<times> 'r) list \<times> ('a, 'r) content_part list"
  where
  "process_part exec p acc =
     (case acc of (final_text, has_function_call, tool_results, function_responses) \<Rightarrow>
        (let final_text' = (if truthy (part_text p) then the (part_text p) else final_text) in
         case function_call p of
           Some fc \<Rightarrow>
             (case args fc of
                None \<Rightarrow> Inl Args_is_None
              | Some func_args \<Rightarrow>
                  if ''function_name'' \<in> fst ` set func_args
                  then Inl Argument_named_function_name
                  else (let result = exec (name fc) func_args in
                        Inr (final_text', True, tool_results @ [(name fc, func_args, result)],
                             function_responses @ [Function_response (name fc) result])))
         | None \<Rightarrow> Inr (final_text', has_function_call, tool_results, function_responses)))"

text \<open>The loop over the parts of one candidate, left at the first exception.\<close>

fun process_parts ::
  "(string option \<Rightarrow> (string \<times> 'a) list \<Rightarrow> 'r) \<Rightarrow> 'a part list \<Rightarrow>
   string \<times> bool \<times> (string option \<times> (string \<times> 'a) list \<times> 'r) list \<times> ('a, 'r) content_part list \<Rightarrow>
   error +
   string \<times> bool \<times> (string option \<times> (string \<times> 'a) list \<times> 'r) list \<times> ('a, 'r) content_part list"
  where
  "process_parts exec [] acc = Inr acc"
| "process_parts exec (p # ps) acc =
     (case process_part exec p acc of
        Inl e \<Rightarrow> Inl e
      | Inr acc' \<Rightarrow> process_parts exec ps acc')"

text \<open>The loop over the candidates (line 642-643).\<close>

fun process_candidates ::
  "(string option \<Rightarrow> (string \<times> 'a) list \<Rightarrow> 'r) \<Rightarrow> 'a candidate list \<Rightarrow>
   string \<times> bool \<times> (string option \<times> (string \<times> 'a) list \<times> 'r) list \<times> ('a, 'r) content_part list \<Rightarrow>
   error +
   string \<times> bool \<times> (string option \<times> (string \<times> 'a) list \<times> 'r) list \<times> ('a, 'r) content_part list"
  where
  "process_candidates exec [] acc = Inr acc"
| "process_candidates exec (c # cs) acc =
     (case content c of
        None \<Rightarrow> Inl Content_is_None
      | Some ct \<Rightarrow>
          (case parts ct of
             None \<Rightarrow> Inl Parts_is_None
           | Some ps \<Rightarrow>
               (case process_parts exec ps acc of
                  Inl e \<Rightarrow> Inl e
                | Inr acc' \<Rightarrow> process_candidates exec cs acc')))"

definition process_response ::
  "(string option \<Rightarrow> (string \<times> 'a) list \<Rightarrow> 'r) \<Rightarrow> 'a response \<Rightarrow>
   string \<times> bool \<times> (string option \<times> (string \<times> 'a) list \<times> 'r) list \<times> ('a, 'r) content_part list \<Rightarrow>
   error +
   string \<times> bool \<times> (string option \<times> (string \<times> 'a) list \<times> 'r) list \<times> ('a, 'r) content_part list"
  where
  "process_response exec resp acc =
     (case candidates resp of
        None \<Rightarrow> Inl Candidates_is_None
      | Some cs \<Rightarrow> process_candidates exec cs acc)"

text \<open>Lines 726-729: the last truthy text of the response, or the text so far.\<close>

fun extract_candidates :: "'a candidate list \<Rightarrow> string \<Rightarrow> error + string" where
  "extract_candidates [] final_text = Inr final_text"
| "extract_candidates (c # cs) final_text =
     (case content c of
        None \<Rightarrow> Inl Content_is_None
      | Some ct \<Rightarrow>
          (case parts ct of
             None \<Rightarrow> Inl Parts_is_None
           | Some ps \<Rightarrow>
               extract_candidates cs
                 (fold (\<lambda>p t. if truthy (part_text p) then the (part_text p) else t) ps
                    final_text)))"

definition extract_text :: "'a response \<Rightarrow> string \<Rightarrow> error + string" where
  "extract_text resp final_text =
     (case candidates resp of
        None \<Rightarrow> Inl Candidates_is_None
      | Some cs \<Rightarrow> extract_candidates cs final_text)"

text \<open>\<^verbatim>\<open>xs[-k:]\<close> for \<open>k \<ge> 0\<close>: the last \<open>k\<close> elements, and the whole list for \<open>k = 0\<close>.\<close>

definition slice_last :: "nat \<Rightarrow> 'b list \<Rightarrow> 'b list" where
  "slice_last k xs = (if k = 0 then xs else drop (length xs - k) xs)"

text \<open>
  The variables of the handler when the \<^verbatim>\<open>while\<close> loop of lines 635-723 is left:
  \<^verbatim>\<open>response\<close> (\<open>None\<close> after the \<^verbatim>\<open>break\<close> of line 720), \<^verbatim>\<open>iteration\<close>,
  \<^verbatim>\<open>final_text\<close>, \<^verbatim>\<open>tool_results\<close> and \<^verbatim>\<open>conversation\<close>, and the process state.
\<close>

record ('a, 'r) loop_result =
  lr_response :: "'a response option"
  lr_iteration :: nat
  lr_final_text :: string
  lr_tool_results :: "(string option \<times> (string \<times> 'a) list \<times> 'r) list"
  lr_conversation :: "('a, 'r) turn list"
  lr_world :: world

text \<open>
  The two turns appended to the conversation after a round with tool calls (lines
  690-701): the calls of this round, read back from the end of \<^verbatim>\<open>tool_results\<close>, and
  their results.
\<close>

definition round_turns ::
  "(string option \<times> (string \<times> 'a) list \<times> 'r) list \<Rightarrow> ('a, 'r) content_part list \<Rightarrow>
   ('a, 'r) turn list" where
  "round_turns tool_results function_responses =
     [\<lparr>role = ''model'',
       turn_parts = map (\<lambda>(f, a, r). Function_call f a)
                      (slice_last (length function_responses) tool_results)\<rparr>,
      \<lparr>role = ''user'', turn_parts = function_responses\<rparr>]"

text \<open>
  The \<^verbatim>\<open>while\<close> loop, entered with a response. It is left with the variables (\<open>Inr\<close>),
  or by an exception raised while a response is read, with the state at that point
  (\<open>Inl\<close>).
\<close>

function message_loop ::
  "config \<Rightarrow> (('a, 'r) turn list, 'a response) backend \<Rightarrow>
   (string option \<Rightarrow> (string \<times> 'a) list \<Rightarrow> 'r) \<Rightarrow>
   'a response \<Rightarrow> nat \<Rightarrow> string \<Rightarrow> (string option \<times> (string \<times> 'a) list \<times> 'r) list \<Rightarrow>
   ('a, 'r) turn list \<Rightarrow> world \<Rightarrow> error \<times> world + ('a, 'r) loop_result"
  where
  "message_loop cfg gen exec resp iteration final_text tool_results conversation w =
     (if iteration < max_iterations
      then (case process_response exec resp (final_text, False, tool_results, []) of
              Inl e \<Rightarrow> Inl (e, w)
            | Inr (final_text', has_function_call, tool_results', function_responses) \<Rightarrow>
                if \<not> has_function_call
                then Inr \<lparr>lr_response = Some resp, lr_iteration = iteration + 1,
                          lr_final_text = final_text', lr_tool_results = tool_results',
                          lr_conversation = conversation, lr_world = w\<rparr>
                else (case call_gemini_with_model_iteration cfg gen
                             (conversation @ round_turns tool_results' function_responses) w of
                        (None, w') \<Rightarrow>
                          Inr \<lparr>lr_response = None, lr_iteration = iteration + 1,
                               lr_final_text = final_text', lr_tool_results = tool_results',
                               lr_conversation =
                                 conversation @ round_turns tool_results' function_responses,
                               lr_world = w'\<rparr>
                      | (Some (resp', model_used), w') \<Rightarrow>
                          message_loop cfg gen exec resp' (iteration + 1) final_text' tool_results'
                            (conversation @ round_turns tool_results' function_responses) w'))
      else Inr \<lparr>lr_response = Some resp, lr_iteration = iteration, lr_final_text = final_text,
                lr_tool_results = tool_results, lr_conversation = conversation, lr_world = w\<rparr>)"
  by pat_completeness auto
termination
  by (relation "measure (\<lambda>(cfg, gen, exec, resp, iteration, rest). max_iterations - iteration)")
     auto

declare message_loop.simps [simp del]

text \<open>
  The handler. The first call of the executor raises when it gives no response; an
  exception of the loop is passed on; after the loop, line 726 reads
  \<^verbatim>\<open>response.candidates\<close>, which raises when \<^verbatim>\<open>response\<close> is \<^verbatim>\<open>None\<close>, and the extraction
  raises on a missing attribute; the \<^verbatim>\<open>except\<close> clause turns each exception into the
  failure answer.
\<close>

definition message ::
  "config \<Rightarrow> (('a, 'r) turn list, 'a response) backend \<Rightarrow>
   (string option \<Rightarrow> (string \<times> 'a) list \<Rightarrow> 'r) \<Rightarrow>
   string \<Rightarrow> world \<Rightarrow> ('a, 'r) reply \<times> world" where
  "message cfg gen exec msg_text w =
     (case call_gemini_with_model_iteration cfg gen
             [\<lparr>role = ''user'', turn_parts = [Text msg_text]\<rparr>] w of
        (None, w1) \<Rightarrow> (Reply_error No_available_models, w1)
      | (Some (resp, model_used), w1) \<Rightarrow>
          (case message_loop cfg gen exec resp 0 [] []
                  [\<lparr>role = ''user'', turn_parts = [Text msg_text]\<rparr>] w1 of
             Inl (e, w2) \<Rightarrow> (Reply_error e, w2)
           | Inr l \<Rightarrow>
               (case lr_response l of
                  None \<Rightarrow> (Reply_error NoneType_has_no_candidates, lr_world l)
                | Some resp' \<Rightarrow>
                    (case extract_text resp' (lr_final_text l) of
                       Inl e \<Rightarrow> (Reply_error e, lr_world l)
                     | Inr final_text \<Rightarrow>
                         (Reply_ok final_text (lr_tool_results l) (lr_iteration l),
                          lr_world l)))))"

section \<open>Vocabulary of the properties\<close>

text \<open>
  An entry of an expiring bucket is unexpired at time \<open>t\<close> when the test of
  \<^verbatim>\<open>is_model_cached_as_failed\<close> on it succeeds; a model is excluded when it is in
  \<^verbatim>\<open>not_found\<close> or has an unexpired entry.
\<close>

definition quota_unexpired :: "real \<Rightarrow> string \<Rightarrow> model_status_cache \<Rightarrow> bool" where
  "quota_unexpired t e c =
     (case quota_exhausted c e of
        Some cached_time \<Rightarrow> t - cached_time < CACHE_EXPIRATION_quota_exhausted
      | None \<Rightarrow> False)"

definition rate_unexpired :: "real \<Rightarrow> string \<Rightarrow> model_status_cache \<Rightarrow> bool" where
  "rate_unexpired t e c =
     (case rate_limited c e of
        Some cached_time \<Rightarrow> t - cached_time < CACHE_EXPIRATION_rate_limited
      | None \<Rightarrow> False)"

definition other_unexpired :: "real \<Rightarrow> string \<Rightarrow> model_status_cache \<Rightarrow> bool" where
  "other_unexpired t e c =
     (case other_errors c e of
        Some (error_msg, cached_time) \<Rightarrow> t - cached_time < CACHE_EXPIRATION_other_errors
      | None \<Rightarrow> False)"

definition excluded :: "real \<Rightarrow> string \<Rightarrow> model_status_cache \<Rightarrow> bool" where
  "excluded t e c =
     (e \<in> not_found c \<or> quota_unexpired t e c \<or> rate_unexpired t e c \<or> other_unexpired t e c)"

text \<open>A model has a failure record when it is in \<^verbatim>\<open>not_found\<close> or in an expiring bucket.\<close>

definition recorded :: "string \<Rightarrow> model_status_cache \<Rightarrow> bool" where
  "recorded e c =
     (e \<in> not_found c \<or> quota_exhausted c e \<noteq> None \<or> rate_limited c e \<noteq> None \<or>
      other_errors c e \<noteq> None)"

text \<open>
  The operations on the cache, to speak about sequences of them: a recorded failure, a
  recorded success, a query, the reset of \<^verbatim>\<open>POST /cache/reset\<close> and the clearing of one
  bucket by \<^verbatim>\<open>POST /cache/clear/{cache_type}\<close>.
\<close>

datatype cache_op =
    Op_failure real string string string
  | Op_success string
  | Op_query real string
  | Op_reset
  | Op_clear string

fun apply_op :: "cache_op \<Rightarrow> model_status_cache \<Rightarrow> model_status_cache" where
  "apply_op (Op_failure now e error_type error_message) c =
     cache_model_failure now e error_type error_message c"
| "apply_op (Op_success e) c = cache_model_success e c"
| "apply_op (Op_query now e) c = snd (is_model_cached_as_failed now e c)"
| "apply_op Op_reset c = reset_model_cache"
| "apply_op (Op_clear cache_type) c =
     (case clear_specific_cache cache_type c of Some c' \<Rightarrow> c' | None \<Rightarrow> c)"

definition apply_ops :: "cache_op list \<Rightarrow> model_status_cache \<Rightarrow> model_status_cache" where
  "apply_ops ops c = fold apply_op ops c"

text \<open>The operations that empty the \<^verbatim>\<open>not_found\<close> set.\<close>

fun clears_not_found :: "cache_op \<Rightarrow> bool" where
  "clears_not_found Op_reset = True"
| "clears_not_found (Op_clear cache_type) = (cache_type = ''not_found'')"
| "clears_not_found other = False"

text \<open>
  The candidate list of \<^verbatim>\<open>call_gemini_with_model_iteration\<close>: \<^verbatim>\<open>models_to_try\<close> after the
  filter of lines 471-481, built at time \<open>now\<close> on cache \<open>c\<close>.
\<close>

definition candidate_list :: "config \<Rightarrow> real \<Rightarrow> model_status_cache \<Rightarrow> string list" where
  "candidate_list cfg now c = fst (fst (filter_cached now (models_to_try cfg c) c))"

text \<open>The trace without the sleeps of the pacer.\<close>

fun is_throttle_sleep :: "event \<Rightarrow> bool" where
  "is_throttle_sleep (Sleep Throttle d) = True"
| "is_throttle_sleep other = False"

definition visible :: "event list \<Rightarrow> event list" where
  "visible evs = filter (\<lambda>e. \<not> is_throttle_sleep e) evs"

text \<open>An error string that the handler of the executor files under \<^verbatim>\<open>rate_limited\<close>.\<close>

definition rate_limited_kind :: "string \<Rightarrow> bool" where
  "rate_limited_kind error_str =
     (\<not> is_not_found error_str \<and> \<not> is_quota_exhausted error_str \<and> is_rate_limit error_str)"

text \<open>
  What the executor is expected to do, pacing apart, for candidate \<open>j\<close> (counted from 0)
  of the list \<open>cs\<close>, when its first remote call is the \<open>n0\<close>-th of the process and the
  first candidate of \<open>cs\<close> is number \<open>model_index\<close> of \<open>n\<close>: the request, and the
  back-off after a rate-limited failure when candidates remain.
\<close>

definition step_trace ::
  "('c, 'resp) backend \<Rightarrow> 'c \<Rightarrow> nat \<Rightarrow> nat \<Rightarrow> nat \<Rightarrow> string list \<Rightarrow> nat \<Rightarrow> event list" where
  "step_trace gen contents n0 model_index n cs j =
     Request (cs ! j) #
     (case snd (gen (n0 + j) (cs ! j) contents) of
        Inl error_str \<Rightarrow>
          if rate_limited_kind error_str \<and> model_index + j < n then [Sleep Backoff 10] else []
      | Inr response \<Rightarrow> [])"







text \<open>
  The words of the specification (section 4.5) on one response. Any plain-text part
  becomes the current best-effort final answer, later text overwriting earlier:
  \<open>last_text ps t\<close> is the text of the last part of \<open>ps\<close> that has one, and the answer
  so far \<open>t\<close> when none has. The tool-invocation parts are collected into the batch of the
  round, in the order the model emitted them: \<open>invocations\<close>. Each invocation of the
  batch is run and logged with its result: \<open>run_batch\<close>.
\<close>

definition last_text :: "'a part list \<Rightarrow> string \<Rightarrow> string" where
  "last_text ps t =
     (case filter (\<lambda>p. truthy (part_text p)) ps of
        [] \<Rightarrow> t
      | q # qs \<Rightarrow> the (part_text (last (q # qs))))"








section \<open>Properties of the cache\<close>

text \<open>The boolean of \<^verbatim>\<open>is_model_cached_as_failed\<close> says whether the model is excluded.\<close>

lemma failed_iff_excluded:
  "fst (fst (is_model_cached_as_failed now e c)) = excluded now e c"
  by (auto simp: is_model_cached_as_failed_def check_quota_exhausted_def check_rate_limited_def
      check_other_errors_def excluded_def quota_unexpired_def rate_unexpired_def
      other_unexpired_def split: option.splits)

lemma query_not_found [simp]:
  "not_found (snd (is_model_cached_as_failed now e c)) = not_found c"
  by (auto simp: is_model_cached_as_failed_def check_quota_exhausted_def check_rate_limited_def
      check_other_errors_def split: option.splits)

lemma query_working [simp]:
  "working (snd (is_model_cached_as_failed now e c)) = working c"
  by (auto simp: is_model_cached_as_failed_def check_quota_exhausted_def check_rate_limited_def
      check_other_errors_def split: option.splits)

lemma failure_not_found_mono:
  "e \<in> not_found c \<Longrightarrow> e \<in> not_found (cache_model_failure now m k msg c)"
  by (simp add: cache_model_failure_def)

lemma failure_working [simp]:
  "working (cache_model_failure now m k msg c) = working c"
  by (simp add: cache_model_failure_def)

lemma apply_op_not_found:
  "\<not> clears_not_found op \<Longrightarrow> e \<in> not_found c \<Longrightarrow> e \<in> not_found (apply_op op c)"
  by (cases op)
     (simp_all add: failure_not_found_mono cache_model_success_def clear_specific_cache_def)

lemma apply_ops_not_found:
  "list_all (\<lambda>op. \<not> clears_not_found op) ops \<Longrightarrow> e \<in> not_found c \<Longrightarrow>
   e \<in> not_found (apply_ops ops c)"
  unfolding apply_ops_def
  by (induction ops arbitrary: c) (simp_all add: apply_op_not_found)

subsection \<open>Expiry of the failure records\<close>

lemma ttl_quota_true:
  "t - now < CACHE_EXPIRATION_quota_exhausted \<Longrightarrow>
   fst (fst (is_model_cached_as_failed t e
               (cache_model_failure now e ''quota_exhausted'' msg c)))"
  by (simp add: failed_iff_excluded excluded_def quota_unexpired_def cache_model_failure_def)

lemma ttl_rate_true:
  "t - now < CACHE_EXPIRATION_rate_limited \<Longrightarrow>
   fst (fst (is_model_cached_as_failed t e (cache_model_failure now e ''rate_limited'' msg c)))"
  by (simp add: failed_iff_excluded excluded_def rate_unexpired_def cache_model_failure_def)

lemma ttl_other_true:
  "t - now < CACHE_EXPIRATION_other_errors \<Longrightarrow>
   fst (fst (is_model_cached_as_failed t e (cache_model_failure now e ''other_error'' msg c)))"
  by (simp add: failed_iff_excluded excluded_def other_unexpired_def cache_model_failure_def)

lemma ttl_quota_false:
  "now + CACHE_EXPIRATION_quota_exhausted \<le> t \<Longrightarrow> e \<notin> not_found c \<Longrightarrow>
   \<not> rate_unexpired t e c \<Longrightarrow> \<not> other_unexpired t e c \<Longrightarrow>
   fst (is_model_cached_as_failed t e (cache_model_failure now e ''quota_exhausted'' msg c))
     = (False, None) \<and>
   quota_exhausted (snd (is_model_cached_as_failed t e
                           (cache_model_failure now e ''quota_exhausted'' msg c))) e = None"
  by (auto simp: is_model_cached_as_failed_def check_quota_exhausted_def check_rate_limited_def
      check_other_errors_def rate_unexpired_def other_unexpired_def cache_model_failure_def
      split: option.splits)

lemma ttl_rate_false:
  "now + CACHE_EXPIRATION_rate_limited \<le> t \<Longrightarrow> e \<notin> not_found c \<Longrightarrow>
   \<not> quota_unexpired t e c \<Longrightarrow> \<not> other_unexpired t e c \<Longrightarrow>
   fst (is_model_cached_as_failed t e (cache_model_failure now e ''rate_limited'' msg c))
     = (False, None) \<and>
   rate_limited (snd (is_model_cached_as_failed t e
                        (cache_model_failure now e ''rate_limited'' msg c))) e = None"
  by (auto simp: is_model_cached_as_failed_def check_quota_exhausted_def check_rate_limited_def
      check_other_errors_def quota_unexpired_def other_unexpired_def cache_model_failure_def
      split: option.splits)

lemma ttl_other_false:
  "now + CACHE_EXPIRATION_other_errors \<le> t \<Longrightarrow> e \<notin> not_found c \<Longrightarrow>
   \<not> quota_unexpired t e c \<Longrightarrow> \<not> rate_unexpired t e c \<Longrightarrow>
   fst (is_model_cached_as_failed t e (cache_model_failure now e ''other_error'' msg c))
     = (False, None) \<and>
   other_errors (snd (is_model_cached_as_failed t e
                        (cache_model_failure now e ''other_error'' msg c))) e = None"
  by (auto simp: is_model_cached_as_failed_def check_quota_exhausted_def check_rate_limited_def
      check_other_errors_def quota_unexpired_def rate_unexpired_def cache_model_failure_def
      split: option.splits)

lemma ttl_not_found:
  "list_all (\<lambda>op. \<not> clears_not_found op) ops \<Longrightarrow>
   fst (is_model_cached_as_failed t e
          (apply_ops ops (cache_model_failure now e ''not_found'' msg c)))
     = (True, Some Reason_not_found)"
  using apply_ops_not_found [of ops e "cache_model_failure now e ''not_found'' msg c"]
  by (simp add: is_model_cached_as_failed_def cache_model_failure_def)

text \<open>
  Claim C3. A failure of endpoint \<open>e\<close> is recorded at time \<open>now\<close> under one of the three
  expiring kinds, and the endpoint is queried at time \<open>t\<close>. While
  \<open>t - now\<close> is below the expiry of the kind, the query answers true. From
  \<open>now + expiry\<close> on, if \<open>e\<close> is not in \<^verbatim>\<open>not_found\<close> and has no unexpired entry in the two
  other buckets, the query answers \<open>(False, None)\<close> and has deleted the entry. An endpoint
  recorded as \<^verbatim>\<open>not_found\<close> is answered \<open>(True, not_found)\<close> at every time \<open>t\<close>, after any
  sequence of cache operations that does not reset the cache or clear \<^verbatim>\<open>not_found\<close>.
\<close>

theorem ttl_correctness:
  "(t - now < CACHE_EXPIRATION_quota_exhausted \<longrightarrow>
      fst (fst (is_model_cached_as_failed t e
                  (cache_model_failure now e ''quota_exhausted'' msg c)))) \<and>
   (t - now < CACHE_EXPIRATION_rate_limited \<longrightarrow>
      fst (fst (is_model_cached_as_failed t e
                  (cache_model_failure now e ''rate_limited'' msg c)))) \<and>
   (t - now < CACHE_EXPIRATION_other_errors \<longrightarrow>
      fst (fst (is_model_cached_as_failed t e
                  (cache_model_failure now e ''other_error'' msg c)))) \<and>
   (now + CACHE_EXPIRATION_quota_exhausted \<le> t \<and> e \<notin> not_found c \<and>
    \<not> rate_unexpired t e c \<and> \<not> other_unexpired t e c \<longrightarrow>
      fst (is_model_cached_as_failed t e
             (cache_model_failure now e ''quota_exhausted'' msg c)) = (False, None) \<and>
      quota_exhausted (snd (is_model_cached_as_failed t e
                              (cache_model_failure now e ''quota_exhausted'' msg c))) e = None) \<and>
   (now + CACHE_EXPIRATION_rate_limited \<le> t \<and> e \<notin> not_found c \<and>
    \<not> quota_unexpired t e c \<and> \<not> other_unexpired t e c \<longrightarrow>
      fst (is_model_cached_as_failed t e
             (cache_model_failure now e ''rate_limited'' msg c)) = (False, None) \<and>
      rate_limited (snd (is_model_cached_as_failed t e
                           (cache_model_failure now e ''rate_limited'' msg c))) e = None) \<and>
   (now + CACHE_EXPIRATION_other_errors \<le> t \<and> e \<notin> not_found c \<and>
    \<not> quota_unexpired t e c \<and> \<not> rate_unexpired t e c \<longrightarrow>
      fst (is_model_cached_as_failed t e
             (cache_model_failure now e ''other_error'' msg c)) = (False, None) \<and>
      other_errors (snd (is_model_cached_as_failed t e
                           (cache_model_failure now e ''other_error'' msg c))) e = None) \<and>
   (list_all (\<lambda>op. \<not> clears_not_found op) ops \<longrightarrow>
      fst (is_model_cached_as_failed t e
             (apply_ops ops (cache_model_failure now e ''not_found'' msg c)))
        = (True, Some Reason_not_found))"
  using ttl_quota_true [of t now e msg c] ttl_rate_true [of t now e msg c]
    ttl_other_true [of t now e msg c] ttl_quota_false [of now t e c msg]
    ttl_rate_false [of now t e c msg] ttl_other_false [of now t e c msg]
    ttl_not_found [of ops t e now msg c]
  by blast

text \<open>
  The theorem at concrete inputs: a failure of \<^verbatim>\<open>m\<close> recorded at time 0 on the empty cache
  is honoured at time 299 under each kind, the rate-limit record is dropped at time 300,
  the other-error record at 1800 and the quota record at 3600; a \<^verbatim>\<open>not_found\<close> record
  survives a later success, failure and query.
\<close>

theorem ttl_correctness_witness:
  "fst (fst (is_model_cached_as_failed 299 ''m''
               (cache_model_failure 0 ''m'' ''quota_exhausted'' [] reset_model_cache))) \<and>
   fst (fst (is_model_cached_as_failed 299 ''m''
               (cache_model_failure 0 ''m'' ''rate_limited'' [] reset_model_cache))) \<and>
   fst (fst (is_model_cached_as_failed 299 ''m''
               (cache_model_failure 0 ''m'' ''other_error'' [] reset_model_cache))) \<and>
   fst (is_model_cached_as_failed 3600 ''m''
          (cache_model_failure 0 ''m'' ''quota_exhausted'' [] reset_model_cache)) = (False, None) \<and>
   fst (is_model_cached_as_failed 300 ''m''
          (cache_model_failure 0 ''m'' ''rate_limited'' [] reset_model_cache)) = (False, None) \<and>
   fst (is_model_cached_as_failed 1800 ''m''
          (cache_model_failure 0 ''m'' ''other_error'' [] reset_model_cache)) = (False, None) \<and>
   fst (is_model_cached_as_failed 99999 ''m''
          (apply_ops [Op_success ''m'', Op_failure 5 ''m'' ''rate_limited'' [], Op_query 400 ''m'']
             (cache_model_failure 0 ''m'' ''not_found'' [] reset_model_cache)))
     = (True, Some Reason_not_found)"
  using
    ttl_correctness [of 299 0 "''m''" "[]" reset_model_cache "[]"]
    ttl_correctness [of 3600 0 "''m''" "[]" reset_model_cache "[]"]
    ttl_correctness [of 300 0 "''m''" "[]" reset_model_cache "[]"]
    ttl_correctness [of 1800 0 "''m''" "[]" reset_model_cache "[]"]
    ttl_correctness [of 99999 0 "''m''" "[]" reset_model_cache
      "[Op_success ''m'', Op_failure 5 ''m'' ''rate_limited'' [], Op_query 400 ''m'']"]
  by (simp add: CACHE_EXPIRATION_quota_exhausted_def CACHE_EXPIRATION_rate_limited_def
      CACHE_EXPIRATION_other_errors_def reset_model_cache_def quota_unexpired_def
      rate_unexpired_def other_unexpired_def)

text \<open>
  Claim C8. After \<^verbatim>\<open>cache_model_success(e)\<close> the endpoint \<open>e\<close> is in the working set and
  has no entry in any of the three expiring buckets; the \<^verbatim>\<open>not_found\<close> set is unchanged,
  and an endpoint in \<^verbatim>\<open>not_found\<close> is still reported as failed, at any time, after the
  success.
\<close>

theorem cache_model_success_post:
  "is_working e (cache_model_success e c) \<and>
   quota_exhausted (cache_model_success e c) e = None \<and>
   rate_limited (cache_model_success e c) e = None \<and>
   other_errors (cache_model_success e c) e = None \<and>
   not_found (cache_model_success e c) = not_found c \<and>
   (e \<in> not_found c \<longrightarrow>
      fst (is_model_cached_as_failed now e (cache_model_success e c))
        = (True, Some Reason_not_found))"
  by (simp add: cache_model_success_def is_working_def is_model_cached_as_failed_def)

theorem cache_model_success_post_witness:
  "is_working ''m'' (cache_model_success ''m'' (reset_model_cache\<lparr>not_found := {''m''}\<rparr>)) \<and>
   fst (is_model_cached_as_failed 7 ''m''
          (cache_model_success ''m'' (reset_model_cache\<lparr>not_found := {''m''}\<rparr>)))
     = (True, Some Reason_not_found)"
  using cache_model_success_post [of "''m''" "reset_model_cache\<lparr>not_found := {''m''}\<rparr>" 7]
  by (simp add: reset_model_cache_def)

subsection \<open>The working set and the failure records\<close>

lemma query_excluded [simp]:
  "excluded now m' (snd (is_model_cached_as_failed now m c)) = excluded now m' c"
  by (auto simp: is_model_cached_as_failed_def check_quota_exhausted_def check_rate_limited_def
      check_other_errors_def excluded_def quota_unexpired_def rate_unexpired_def
      other_unexpired_def split: option.splits if_splits)

lemma excluded_reset [simp]: "\<not> excluded now e reset_model_cache"
  by (simp add: excluded_def reset_model_cache_def quota_unexpired_def rate_unexpired_def
      other_unexpired_def)

text \<open>The filter keeps the models that are not excluded, in their order.\<close>

lemma filter_cached_kept:
  "fst (fst (filter_cached now ms c)) = filter (\<lambda>m. \<not> excluded now m c) ms"
proof (induction ms arbitrary: c)
  case Nil
  show ?case by simp
next
  case (Cons m ms)
  obtain b r c1 where q: "is_model_cached_as_failed now m c = ((b, r), c1)"
    by (metis surj_pair)
  obtain kept skipped c2 where f: "filter_cached now ms c1 = ((kept, skipped), c2)"
    by (metis surj_pair)
  have b: "b = excluded now m c"
    using failed_iff_excluded [of now m c] q by simp
  have c1: "c1 = snd (is_model_cached_as_failed now m c)"
    using q by simp
  have "kept = filter (\<lambda>m. \<not> excluded now m c1) ms"
    using Cons.IH [of c1] f by simp
  then have kept: "kept = filter (\<lambda>m. \<not> excluded now m c) ms"
    by (simp add: c1)
  show ?case
    using q f b kept by simp
qed

lemma candidate_list_filter:
  "candidate_list cfg now c = filter (\<lambda>m. \<not> excluded now m c) (models_to_try cfg c)"
  by (simp add: candidate_list_def filter_cached_kept)

text \<open>
  Claim C1, as the code has it. \<^verbatim>\<open>cache_model_failure\<close> never changes the working set,
  whatever the kind; \<^verbatim>\<open>cache_model_success(e)\<close> puts \<open>e\<close> in the working set and leaves it
  no unexpired entry in an expiring bucket; an endpoint that is excluded at the time the
  candidate list is built is not in the list, whether it is in the working set or not.
\<close>

theorem working_set_frame:
  "working (cache_model_failure now e error_type msg c) = working c \<and>
   is_working e (cache_model_success e c) \<and>
   \<not> quota_unexpired t e (cache_model_success e c) \<and>
   \<not> rate_unexpired t e (cache_model_success e c) \<and>
   \<not> other_unexpired t e (cache_model_success e c) \<and>
   (excluded t e c \<longrightarrow> e \<notin> set (candidate_list cfg t c))"
  by (simp add: candidate_list_filter cache_model_success_def is_working_def
      quota_unexpired_def rate_unexpired_def other_unexpired_def)

text \<open>
  The theorem on the cache in which \<^verbatim>\<open>e\<close> succeeded and then ran out of quota at time 0:
  \<^verbatim>\<open>e\<close> is excluded at time 1, and left out of the candidate list of a configuration
  whose primary model it is.
\<close>

theorem working_set_frame_witness:
  "excluded 1 ''e''
     (cache_model_failure 0 ''e'' ''quota_exhausted'' [] (cache_model_success ''e'' reset_model_cache)) \<and>
   ''e'' \<notin> set (candidate_list
                  \<lparr>PRIMARY_MODEL = ''e'', FALLBACK_MODEL = ''f'', AVAILABLE_MODELS = []\<rparr> 1
                  (cache_model_failure 0 ''e'' ''quota_exhausted'' []
                     (cache_model_success ''e'' reset_model_cache)))"
  using working_set_frame [of 0 "''e''" "''quota_exhausted''" "[]"
      "cache_model_failure 0 ''e'' ''quota_exhausted'' [] (cache_model_success ''e'' reset_model_cache)"
      1 "\<lparr>PRIMARY_MODEL = ''e'', FALLBACK_MODEL = ''f'', AVAILABLE_MODELS = []\<rparr>"]
  by (simp add: excluded_def quota_unexpired_def cache_model_failure_def cache_model_success_def
      reset_model_cache_def CACHE_EXPIRATION_quota_exhausted_def)

text \<open>
  Claim C1 as stated fails: after a success and then a quota failure of \<^verbatim>\<open>e\<close> at time 0,
  \<^verbatim>\<open>e\<close> is in the working set and has an unexpired entry in \<^verbatim>\<open>quota_exhausted\<close> at time 1.
\<close>

theorem working_set_overlap_counterexample:
  "is_working ''e''
     (apply_ops [Op_success ''e'', Op_failure 0 ''e'' ''quota_exhausted'' []] reset_model_cache) \<and>
   quota_unexpired 1 ''e''
     (apply_ops [Op_success ''e'', Op_failure 0 ''e'' ''quota_exhausted'' []] reset_model_cache)"
  by (simp add: apply_ops_def is_working_def quota_unexpired_def cache_model_failure_def
      cache_model_success_def reset_model_cache_def CACHE_EXPIRATION_quota_exhausted_def)

section \<open>Properties of the candidate list\<close>

lemma add_available_distinct: "distinct xs \<Longrightarrow> distinct (add_available info xs)"
  by (simp add: add_available_def Let_def)

lemma fold_add_available_distinct:
  "distinct xs \<Longrightarrow> distinct (fold add_available infos xs)"
  by (induction infos arbitrary: xs) (simp_all add: add_available_distinct)

lemma models_to_try_distinct: "distinct (models_to_try cfg c)"
  unfolding models_to_try_def Let_def
  by (rule fold_add_available_distinct) auto

lemma add_available_set:
  "set (add_available info xs) \<subseteq>
     set xs \<union> (if text_generation_model (lower (display_name info)) then {full_name info} else {})"
  by (auto simp: add_available_def Let_def)

lemma fold_add_available_set:
  "m \<in> set (fold add_available infos xs) \<Longrightarrow>
     m \<in> set xs \<or>
     (\<exists>i \<in> set infos. full_name i = m \<and> text_generation_model (lower (display_name i)))"
proof (induction infos arbitrary: xs)
  case Nil
  then show ?case by simp
next
  case (Cons a infos)
  from Cons.prems have "m \<in> set (fold add_available infos (add_available a xs))" by simp
  from Cons.IH [OF this] show ?case
    using add_available_set [of a xs] by (auto split: if_splits)
qed

lemma models_to_try_set:
  "m \<in> set (models_to_try cfg c) \<Longrightarrow>
     m = PRIMARY_MODEL cfg \<or> m = FALLBACK_MODEL cfg \<or> is_working m c \<or>
     (\<exists>i \<in> set (AVAILABLE_MODELS cfg).
        full_name i = m \<and> text_generation_model (lower (display_name i)))"
  unfolding models_to_try_def Let_def is_working_def
  by (drule fold_add_available_set) (auto split: if_splits)

lemma models_to_try_four:
  assumes "distinct [P, F, X, Y]" "P \<noteq> []" "F \<noteq> []"
    "PRIMARY_MODEL cfg = P" "FALLBACK_MODEL cfg = F"
    "AVAILABLE_MODELS cfg = [iP, iF, iX, iY]"
    "map full_name [iP, iF, iX, iY] = [P, F, X, Y]"
    "text_generation_model (lower (display_name iX))"
    "text_generation_model (lower (display_name iY))"
    "working c = Dlist.empty"
  shows "models_to_try cfg c = [P, F, X, Y]"
  using assms by (auto simp: models_to_try_def add_available_def Let_def)

text \<open>
  Claim C10. No model name occurs twice in the candidate list, nor in the list before
  the filter: the working set has no duplicates, the primary model is added only when it
  is not in the working set, the fallback and each listed model only when not yet in the
  list. This needs no assumption on the listed names.
\<close>

theorem candidate_list_distinct:
  "distinct (models_to_try cfg c) \<and> distinct (candidate_list cfg now c)"
  by (simp add: candidate_list_filter models_to_try_distinct)

text \<open>
  Claim C5, as the code has it. Let the primary \<open>P\<close> and the fallback \<open>F\<close> be non-empty,
  the listed models be \<open>P, F, X, Y\<close>, pairwise distinct, with \<open>X\<close> and \<open>Y\<close> passing the
  capability test, and the working set be empty. If none of the four is excluded (as with
  an empty failure cache) the candidate list is \<open>[P, F, X, Y]\<close>; if \<open>X\<close> alone is excluded it
  is \<open>[P, F, Y]\<close>. In every configuration, a member of the candidate list is the primary,
  the fallback, a member of the working set, or a listed model that passes the
  capability test: the loop over the listed models appends no other.
\<close>

theorem selector_ordering:
  "(distinct [P, F, X, Y] \<and> P \<noteq> [] \<and> F \<noteq> [] \<and>
    PRIMARY_MODEL cfg = P \<and> FALLBACK_MODEL cfg = F \<and>
    AVAILABLE_MODELS cfg = [iP, iF, iX, iY] \<and>
    map full_name [iP, iF, iX, iY] = [P, F, X, Y] \<and>
    text_generation_model (lower (display_name iX)) \<and>
    text_generation_model (lower (display_name iY)) \<and>
    working c = Dlist.empty \<and>
    \<not> excluded now P c \<and> \<not> excluded now F c \<and> \<not> excluded now Y c \<longrightarrow>
      candidate_list cfg now c = (if excluded now X c then [P, F, Y] else [P, F, X, Y])) \<and>
   (m \<in> set (candidate_list cfg' now c') \<longrightarrow>
      m = PRIMARY_MODEL cfg' \<or> m = FALLBACK_MODEL cfg' \<or> is_working m c' \<or>
      (\<exists>i \<in> set (AVAILABLE_MODELS cfg').
         full_name i = m \<and> text_generation_model (lower (display_name i))))"
proof (intro conjI impI)
  assume a: "distinct [P, F, X, Y] \<and> P \<noteq> [] \<and> F \<noteq> [] \<and>
    PRIMARY_MODEL cfg = P \<and> FALLBACK_MODEL cfg = F \<and>
    AVAILABLE_MODELS cfg = [iP, iF, iX, iY] \<and>
    map full_name [iP, iF, iX, iY] = [P, F, X, Y] \<and>
    text_generation_model (lower (display_name iX)) \<and>
    text_generation_model (lower (display_name iY)) \<and>
    working c = Dlist.empty \<and>
    \<not> excluded now P c \<and> \<not> excluded now F c \<and> \<not> excluded now Y c"
  then have "models_to_try cfg c = [P, F, X, Y]"
    by (intro models_to_try_four [of P F X Y cfg iP iF iX iY c]) simp_all
  with a show "candidate_list cfg now c = (if excluded now X c then [P, F, Y] else [P, F, X, Y])"
    by (simp add: candidate_list_filter)
next
  assume "m \<in> set (candidate_list cfg' now c')"
  then have "m \<in> set (models_to_try cfg' c')"
    by (simp add: candidate_list_filter)
  then show "m = PRIMARY_MODEL cfg' \<or> m = FALLBACK_MODEL cfg' \<or> is_working m c' \<or>
      (\<exists>i \<in> set (AVAILABLE_MODELS cfg').
         full_name i = m \<and> text_generation_model (lower (display_name i)))"
    by (rule models_to_try_set)
qed

text \<open>
  The theorem on four listed models, of which \<^verbatim>\<open>gemma-x\<close> is rate limited at time 0 in
  the second cache, with the list built at time 10.
\<close>

lemma gemma_x_capable:
  "text_generation_model (lower (display_name (model_entry ''models/gemma-x'')))"
  by code_simp

lemma gemini_y_capable:
  "text_generation_model (lower (display_name (model_entry ''models/gemini-y'')))"
  by code_simp

lemma four_full_names:
  "map full_name [model_entry ''models/gemini-a'', model_entry ''models/gemini-b'',
                  model_entry ''models/gemma-x'', model_entry ''models/gemini-y'']
     = [''models/gemini-a'', ''models/gemini-b'', ''models/gemma-x'', ''models/gemini-y'']"
  by (simp add: model_entry_def)

theorem selector_ordering_witness:
  "candidate_list
     \<lparr>PRIMARY_MODEL = ''models/gemini-a'', FALLBACK_MODEL = ''models/gemini-b'',
      AVAILABLE_MODELS = [model_entry ''models/gemini-a'', model_entry ''models/gemini-b'',
          model_entry ''models/gemma-x'', model_entry ''models/gemini-y'']\<rparr> 10 reset_model_cache
     = [''models/gemini-a'', ''models/gemini-b'', ''models/gemma-x'', ''models/gemini-y''] \<and>
   candidate_list
     \<lparr>PRIMARY_MODEL = ''models/gemini-a'', FALLBACK_MODEL = ''models/gemini-b'',
      AVAILABLE_MODELS = [model_entry ''models/gemini-a'', model_entry ''models/gemini-b'',
          model_entry ''models/gemma-x'', model_entry ''models/gemini-y'']\<rparr> 10
     (cache_model_failure 0 ''models/gemma-x'' ''rate_limited'' [] reset_model_cache)
     = [''models/gemini-a'', ''models/gemini-b'', ''models/gemini-y''] \<and>
   (\<exists>i \<in> set [model_entry ''models/gemini-a'', model_entry ''models/gemini-b'',
               model_entry ''models/gemma-x'', model_entry ''models/gemini-y''].
      full_name i = ''models/gemini-y'' \<and> text_generation_model (lower (display_name i)))"
proof -
  let ?cfg = "\<lparr>PRIMARY_MODEL = ''models/gemini-a'', FALLBACK_MODEL = ''models/gemini-b'',
      AVAILABLE_MODELS = [model_entry ''models/gemini-a'', model_entry ''models/gemini-b'',
          model_entry ''models/gemma-x'', model_entry ''models/gemini-y'']\<rparr>"
  let ?c = "cache_model_failure 0 ''models/gemma-x'' ''rate_limited'' [] reset_model_cache"
  have ex: "excluded 10 ''models/gemma-x'' ?c" "\<not> excluded 10 ''models/gemini-a'' ?c"
    "\<not> excluded 10 ''models/gemini-b'' ?c" "\<not> excluded 10 ''models/gemini-y'' ?c"
    "working ?c = Dlist.empty"
    by (simp_all add: excluded_def quota_unexpired_def rate_unexpired_def other_unexpired_def
        cache_model_failure_def reset_model_cache_def CACHE_EXPIRATION_rate_limited_def)
  have w0: "working reset_model_cache = Dlist.empty"
    by (simp add: reset_model_cache_def)
  have a: "candidate_list ?cfg 10 reset_model_cache
     = [''models/gemini-a'', ''models/gemini-b'', ''models/gemma-x'', ''models/gemini-y'']"
    using selector_ordering [where P = "''models/gemini-a''" and F = "''models/gemini-b''"
        and X = "''models/gemma-x''" and Y = "''models/gemini-y''" and cfg = ?cfg
        and iP = "model_entry ''models/gemini-a''" and iF = "model_entry ''models/gemini-b''"
        and iX = "model_entry ''models/gemma-x''" and iY = "model_entry ''models/gemini-y''"
        and c = reset_model_cache and now = 10] gemma_x_capable gemini_y_capable
      four_full_names w0
    by simp
  have b: "candidate_list ?cfg 10 ?c
     = [''models/gemini-a'', ''models/gemini-b'', ''models/gemini-y'']"
    using selector_ordering [where P = "''models/gemini-a''" and F = "''models/gemini-b''"
        and X = "''models/gemma-x''" and Y = "''models/gemini-y''" and cfg = ?cfg
        and iP = "model_entry ''models/gemini-a''" and iF = "model_entry ''models/gemini-b''"
        and iX = "model_entry ''models/gemma-x''" and iY = "model_entry ''models/gemini-y''"
        and c = ?c and now = 10] gemma_x_capable gemini_y_capable four_full_names ex
    by simp
  have "''models/gemini-y'' \<in> set (candidate_list ?cfg 10 reset_model_cache)"
    by (simp add: a)
  then have d: "\<exists>i \<in> set [model_entry ''models/gemini-a'', model_entry ''models/gemini-b'',
               model_entry ''models/gemma-x'', model_entry ''models/gemini-y''].
      full_name i = ''models/gemini-y'' \<and> text_generation_model (lower (display_name i))"
    using selector_ordering [where m = "''models/gemini-y''" and cfg' = ?cfg
        and c' = reset_model_cache and now = 10]
    by (simp add: is_working_def reset_model_cache_def)
  show ?thesis using a b d by blast
qed

text \<open>
  Claim C5 as stated fails in its last part. When the remote lists the one model
  \<^verbatim>\<open>models/gemini-2.5-flash-preview-tts\<close>, start-up makes it the primary model (its display
  name contains \<^verbatim>\<open>gemini-2.5-flash\<close>); it is a listed model that fails the capability test
  (\<^verbatim>\<open>tts\<close>), and it is in the candidate list.
\<close>

theorem selector_capability_counterexample:
  "model_entry ''models/gemini-2.5-flash-preview-tts''
     \<in> set (AVAILABLE_MODELS (startup [''models/gemini-2.5-flash-preview-tts''] False)) \<and>
   \<not> text_generation_model
       (lower (display_name (model_entry ''models/gemini-2.5-flash-preview-tts''))) \<and>
   ''models/gemini-2.5-flash-preview-tts''
     \<in> set (candidate_list (startup [''models/gemini-2.5-flash-preview-tts''] False) 0
               reset_model_cache)"
  by code_simp

section \<open>Properties of the request pacer\<close>

lemma popleft_old_empty: "popleft_old now ts = [] \<Longrightarrow> ts \<noteq> [] \<Longrightarrow> 60 < now - last ts"
  by (induction ts) (auto split: if_splits)

lemma popleft_old_last: "popleft_old now ts \<noteq> [] \<Longrightarrow> last (popleft_old now ts) = last ts"
  by (induction ts) (auto split: if_splits)

lemma deque_append_last [simp]: "deque_append t ts \<noteq> [] \<and> last (deque_append t ts) = t"
  by (simp add: deque_append_def)

lemma throttle_stamp:
  "request_times (throttle_requests w) \<noteq> [] \<and>
   last (request_times (throttle_requests w)) = clock (throttle_requests w)"
  by (simp add: throttle_requests_def Let_def time_sleep_def)

lemma throttle_spacing_last:
  assumes "request_times w \<noteq> []"
  shows "last (request_times w) + MIN_REQUEST_INTERVAL \<le> last (request_times (throttle_requests w))"
proof (cases "popleft_old (clock w) (request_times w) = []")
  case True
  from popleft_old_empty [OF True assms] have "60 < clock w - last (request_times w)" .
  with True show ?thesis
    by (simp add: throttle_requests_def Let_def MIN_REQUEST_INTERVAL_def)
next
  case False
  then have "last (popleft_old (clock w) (request_times w)) = last (request_times w)"
    by (rule popleft_old_last)
  with False show ?thesis
    by (simp add: throttle_requests_def Let_def time_sleep_def)
qed

text \<open>
  Claim C9. In one sequential process, let a call of \<^verbatim>\<open>throttle_requests\<close> complete, and
  let the next call start in any state \<open>w'\<close> that has the deque the first call left
  (whatever time has passed and whatever else has changed). Both calls record a time
  stamp, and the second is at least \<^verbatim>\<open>MIN_REQUEST_INTERVAL\<close> after the first. Moreover, when
  the deque after the purge is not empty and its last entry is less than the minimum
  interval old, the call sleeps exactly the remaining time and records the last entry
  plus the interval.
\<close>

theorem pacer_spacing:
  "(request_times w' = request_times (throttle_requests w) \<longrightarrow>
      request_times (throttle_requests w) \<noteq> [] \<and> request_times (throttle_requests w') \<noteq> [] \<and>
      last (request_times (throttle_requests w)) + MIN_REQUEST_INTERVAL
        \<le> last (request_times (throttle_requests w'))) \<and>
   (popleft_old (clock w) (request_times w) \<noteq> [] \<and>
    clock w - last (popleft_old (clock w) (request_times w)) < MIN_REQUEST_INTERVAL \<longrightarrow>
      events (throttle_requests w) =
        events w @ [Sleep Throttle (MIN_REQUEST_INTERVAL -
                      (clock w - last (popleft_old (clock w) (request_times w))))] \<and>
      last (request_times (throttle_requests w)) = last (request_times w) + MIN_REQUEST_INTERVAL)"
proof (intro conjI impI)
  assume eq: "request_times w' = request_times (throttle_requests w)"
  show "request_times (throttle_requests w) \<noteq> []" using throttle_stamp by blast
  show "request_times (throttle_requests w') \<noteq> []" using throttle_stamp by blast
  have "request_times w' \<noteq> []" using eq throttle_stamp by simp
  from throttle_spacing_last [OF this] eq
  show "last (request_times (throttle_requests w)) + MIN_REQUEST_INTERVAL
        \<le> last (request_times (throttle_requests w'))" by simp
next
  assume a: "popleft_old (clock w) (request_times w) \<noteq> [] \<and>
    clock w - last (popleft_old (clock w) (request_times w)) < MIN_REQUEST_INTERVAL"
  then show "events (throttle_requests w) =
        events w @ [Sleep Throttle (MIN_REQUEST_INTERVAL -
                      (clock w - last (popleft_old (clock w) (request_times w))))]"
    by (simp add: throttle_requests_def Let_def time_sleep_def)
  from a have "last (popleft_old (clock w) (request_times w)) = last (request_times w)"
    using popleft_old_last by blast
  with a show "last (request_times (throttle_requests w)) = last (request_times w) + MIN_REQUEST_INTERVAL"
    by (simp add: throttle_requests_def Let_def time_sleep_def)
qed

text \<open>
  The theorem on a first call at time 100 and a second call entered at time 102: the
  second call sleeps 3 seconds and records 105.
\<close>

theorem pacer_spacing_witness:
  "request_times (throttle_requests
       \<lparr>MODEL_STATUS_CACHE = reset_model_cache, request_times = [], clock = 100, calls = 0, events = []\<rparr>)
     = [100] \<and>
   request_times (throttle_requests
       \<lparr>MODEL_STATUS_CACHE = reset_model_cache, request_times = [100], clock = 102, calls = 0, events = []\<rparr>)
     = [100, 105] \<and>
   events (throttle_requests
       \<lparr>MODEL_STATUS_CACHE = reset_model_cache, request_times = [100], clock = 102, calls = 0, events = []\<rparr>)
     = [Sleep Throttle 3] \<and>
   (100::real) + MIN_REQUEST_INTERVAL \<le> 105"
  using pacer_spacing [of
      "\<lparr>MODEL_STATUS_CACHE = reset_model_cache, request_times = [100], clock = 102, calls = 0, events = []\<rparr>"
      "\<lparr>MODEL_STATUS_CACHE = reset_model_cache, request_times = [], clock = 100, calls = 0, events = []\<rparr>"]
    pacer_spacing [of
      "\<lparr>MODEL_STATUS_CACHE = reset_model_cache, request_times = [100], clock = 102, calls = 0, events = []\<rparr>"
      "\<lparr>MODEL_STATUS_CACHE = reset_model_cache, request_times = [100], clock = 102, calls = 0, events = []\<rparr>"]
  by (simp add: throttle_requests_def Let_def time_sleep_def deque_append_def MIN_REQUEST_INTERVAL_def)

section \<open>Properties of the executor\<close>

text \<open>\<open>str_contains\<close> is the substring test.\<close>

lemma str_contains_iff: "str_contains sub s \<longleftrightarrow> (\<exists>p q. s = p @ sub @ q)"
proof (induction s)
  case Nil
  show ?case by auto
next
  case (Cons c cs)
  show ?case
  proof
    assume "str_contains sub (c # cs)"
    then consider "take (length sub) (c # cs) = sub" | "str_contains sub cs" by auto
    then show "\<exists>p q. c # cs = p @ sub @ q"
    proof cases
      case 1
      then have "c # cs = [] @ sub @ drop (length sub) (c # cs)"
        by (metis append_Nil append_take_drop_id)
      then show ?thesis by blast
    next
      case 2
      with Cons.IH obtain p q where "cs = p @ sub @ q" by blast
      then have "c # cs = (c # p) @ sub @ q" by simp
      then show ?thesis by blast
    qed
  next
    assume "\<exists>p q. c # cs = p @ sub @ q"
    then obtain p q where pq: "c # cs = p @ sub @ q" by blast
    show "str_contains sub (c # cs)"
    proof (cases p)
      case Nil
      with pq have "take (length sub) (c # cs) = sub" by simp
      then show ?thesis by simp
    next
      case (Cons a p')
      with pq have "cs = p' @ sub @ q" by simp
      with Cons.IH have "str_contains sub cs" by blast
      then show ?thesis by simp
    qed
  qed
qed

lemma visible_append [simp]: "visible (xs @ ys) = visible xs @ visible ys"
  by (simp add: visible_def)

lemma visible_Nil [simp]: "visible [] = []"
  by (simp add: visible_def)

lemma visible_Cons [simp]:
  "visible (e # es) = (if is_throttle_sleep e then visible es else e # visible es)"
  by (simp add: visible_def)

lemma throttle_frame [simp]:
  "calls (throttle_requests w) = calls w"
  "MODEL_STATUS_CACHE (throttle_requests w) = MODEL_STATUS_CACHE w"
  "visible (events (throttle_requests w)) = visible (events w)"
  by (simp_all add: throttle_requests_def Let_def time_sleep_def)

lemma generate_content_eq:
  "generate_content gen m c w =
     (snd (gen (calls w) m c),
      w\<lparr>clock := clock w + fst (gen (calls w) m c), calls := calls w + 1,
        events := events w @ [Request m]\<rparr>)"
  by (simp add: generate_content_def split: prod.splits)

lemma generate_frame [simp]:
  "calls (snd (generate_content gen m c w)) = Suc (calls w)"
  "events (snd (generate_content gen m c w)) = events w @ [Request m]"
  "MODEL_STATUS_CACHE (snd (generate_content gen m c w)) = MODEL_STATUS_CACHE w"
  by (simp_all add: generate_content_eq)

lemma handle_error_frame [simp]:
  "calls (handle_error m e i n w) = calls w"
  "events (handle_error m e i n w) =
     events w @ (if rate_limited_kind e \<and> i < n then [Sleep Backoff 10] else [])"
  by (simp_all add: handle_error_def Let_def time_sleep_def rate_limited_kind_def)

lemma handle_error_cache:
  "MODEL_STATUS_CACHE (handle_error m e i n w) =
     cache_model_failure (clock w) m
       (if is_not_found e then ''not_found''
        else if is_quota_exhausted e then ''quota_exhausted''
        else if is_rate_limit e then ''rate_limited'' else ''other_error'')
       (if is_not_found e \<or> is_quota_exhausted e \<or> is_rate_limit e then [] else take 200 e)
       (MODEL_STATUS_CACHE w)"
  by (simp add: handle_error_def Let_def time_sleep_def)

lemma failure_recorded:
  "k \<in> {''not_found'', ''quota_exhausted'', ''rate_limited'', ''other_error''} \<Longrightarrow>
   recorded m (cache_model_failure now m k msg c)"
  by (auto simp: recorded_def cache_model_failure_def)

lemma failure_recorded_mono:
  "recorded x c \<Longrightarrow> recorded x (cache_model_failure now m k msg c)"
  by (auto simp: recorded_def cache_model_failure_def)

lemma handle_error_recorded: "recorded m (MODEL_STATUS_CACHE (handle_error m e i n w))"
  unfolding handle_error_cache by (rule failure_recorded) simp

lemma handle_error_recorded_mono:
  "recorded x (MODEL_STATUS_CACHE w) \<Longrightarrow> recorded x (MODEL_STATUS_CACHE (handle_error m e i n w))"
  unfolding handle_error_cache by (rule failure_recorded_mono)

lemma success_recorded_mono:
  "recorded x c \<Longrightarrow> x \<noteq> m \<Longrightarrow> recorded x (cache_model_success m c)"
  by (auto simp: recorded_def cache_model_success_def)

lemma step_trace_Suc:
  "step_trace gen c n0 i n (m # ms) (Suc j) = step_trace gen c (Suc n0) (Suc i) n ms j"
  by (simp add: step_trace_def split: sum.splits)

lemma try_models_recorded:
  "recorded x (MODEL_STATUS_CACHE w) \<Longrightarrow> \<forall>r. fst (try_models gen c i n ms w) \<noteq> Some (r, x) \<Longrightarrow>
   recorded x (MODEL_STATUS_CACHE (snd (try_models gen c i n ms w)))"
proof (induction ms arbitrary: w i)
  case Nil
  then show ?case by simp
next
  case (Cons m ms)
  show ?case
  proof (cases "snd (gen (calls w) m c)")
    case (Inl e)
    let ?w2 = "handle_error m e i n (snd (generate_content gen m c (throttle_requests w)))"
    have "recorded x (MODEL_STATUS_CACHE ?w2)"
      using Cons.prems(1) by (intro handle_error_recorded_mono) (simp add: generate_content_eq)
    moreover have "\<forall>r. fst (try_models gen c (i + 1) n ms ?w2) \<noteq> Some (r, x)"
      using Cons.prems(2) Inl by (simp add: generate_content_eq)
    ultimately show ?thesis
      using Cons.IH [of ?w2 "i + 1"] Inl by (simp add: generate_content_eq)
  next
    case (Inr r)
    with Cons.prems have "x \<noteq> m" by (auto simp: generate_content_eq)
    with Cons.prems(1) Inr show ?thesis
      by (simp add: generate_content_eq success_recorded_mono)
  qed
qed

lemma try_models_all_fail:
  "\<forall>j<length ms. isl (snd (gen (calls w + j) (ms ! j) c)) \<Longrightarrow>
   fst (try_models gen c i n ms w) = None \<and>
   visible (events (snd (try_models gen c i n ms w))) =
     visible (events w) @ concat (map (step_trace gen c (calls w) i n ms) [0..<length ms]) \<and>
   (\<forall>m \<in> set ms. recorded m (MODEL_STATUS_CACHE (snd (try_models gen c i n ms w))))"
proof (induction ms arbitrary: w i)
  case Nil
  show ?case by simp
next
  case (Cons m ms)
  from Cons.prems have "isl (snd (gen (calls w + 0) ((m # ms) ! 0) c))" by blast
  then obtain e where e: "snd (gen (calls w) m c) = Inl e" by (auto simp: isl_def)
  let ?w1 = "snd (generate_content gen m c (throttle_requests w))"
  let ?w2 = "handle_error m e i n ?w1"
  have step: "try_models gen c i n (m # ms) w = try_models gen c (i + 1) n ms ?w2"
    using e by (simp add: generate_content_eq)
  have calls2: "calls ?w2 = Suc (calls w)" by (simp add: generate_content_eq)
  have "\<forall>j<length ms. isl (snd (gen (calls ?w2 + j) (ms ! j) c))"
  proof (intro allI impI)
    fix j assume "j < length ms"
    then have "isl (snd (gen (calls w + Suc j) ((m # ms) ! Suc j) c))"
      using Cons.prems by (metis Suc_less_eq length_Cons)
    then show "isl (snd (gen (calls ?w2 + j) (ms ! j) c))" by simp
  qed
  from Cons.IH [OF this, of "i + 1"]
  have ih: "fst (try_models gen c (i + 1) n ms ?w2) = None"
    "visible (events (snd (try_models gen c (i + 1) n ms ?w2))) =
       visible (events ?w2) @ concat (map (step_trace gen c (calls ?w2) (i + 1) n ms) [0..<length ms])"
    "\<forall>m' \<in> set ms. recorded m' (MODEL_STATUS_CACHE (snd (try_models gen c (i + 1) n ms ?w2)))"
    by blast+
  have ev2: "visible (events ?w2) = visible (events w) @ step_trace gen c (calls w) i n (m # ms) 0"
    using e by (simp add: generate_content_eq step_trace_def)
  have seg: "map (step_trace gen c (calls w) i n (m # ms)) [0..<length (m # ms)] =
      step_trace gen c (calls w) i n (m # ms) 0 #
      map (step_trace gen c (calls ?w2) (i + 1) n ms) [0..<length ms]"
    by (simp add: map_upt_Suc step_trace_Suc calls2 del: upt_Suc)
  have rec_m: "recorded m (MODEL_STATUS_CACHE (snd (try_models gen c (i + 1) n ms ?w2)))"
    using ih(1) by (intro try_models_recorded handle_error_recorded) simp
  have "visible (events (snd (try_models gen c i n (m # ms) w))) =
      visible (events w) @ concat (map (step_trace gen c (calls w) i n (m # ms)) [0..<length (m # ms)])"
    by (simp only: step ih(2) ev2 seg concat.simps append_assoc)
  then show ?case
    using ih(1,3) rec_m by (simp add: step del: upt_Suc try_models.simps)
qed

lemma try_models_first_ok:
  "k < length ms \<Longrightarrow> snd (gen (calls w + k) (ms ! k) c) = Inr r \<Longrightarrow>
   \<forall>j<k. isl (snd (gen (calls w + j) (ms ! j) c)) \<Longrightarrow>
   fst (try_models gen c i n ms w) = Some (r, ms ! k) \<and>
   visible (events (snd (try_models gen c i n ms w))) =
     visible (events w) @ concat (map (step_trace gen c (calls w) i n ms) [0..<Suc k]) \<and>
   is_working (ms ! k) (MODEL_STATUS_CACHE (snd (try_models gen c i n ms w))) \<and>
   (\<forall>j<k. ms ! j \<noteq> ms ! k \<longrightarrow> recorded (ms ! j) (MODEL_STATUS_CACHE (snd (try_models gen c i n ms w))))"
proof (induction ms arbitrary: w i k)
  case Nil
  then show ?case by simp
next
  case (Cons m ms)
  show ?case
  proof (cases k)
    case 0
    with Cons.prems have r: "snd (gen (calls w) m c) = Inr r" by simp
    show ?thesis
      using 0 r
      by (simp add: generate_content_eq step_trace_def is_working_def cache_model_success_def)
  next
    case (Suc k')
    from Cons.prems(3) Suc have "isl (snd (gen (calls w + 0) ((m # ms) ! 0) c))" by blast
    then obtain e where e: "snd (gen (calls w) m c) = Inl e" by (auto simp: isl_def)
    let ?w1 = "snd (generate_content gen m c (throttle_requests w))"
    let ?w2 = "handle_error m e i n ?w1"
    have step: "try_models gen c i n (m # ms) w = try_models gen c (i + 1) n ms ?w2"
      using e by (simp add: generate_content_eq)
    have calls2: "calls ?w2 = Suc (calls w)" by (simp add: generate_content_eq)
    have k': "k' < length ms" using Cons.prems(1) Suc by simp
    have r': "snd (gen (calls ?w2 + k') (ms ! k') c) = Inr r"
      using Cons.prems(2) Suc by simp
    have f': "\<forall>j<k'. isl (snd (gen (calls ?w2 + j) (ms ! j) c))"
    proof (intro allI impI)
      fix j assume "j < k'"
      then have "isl (snd (gen (calls w + Suc j) ((m # ms) ! Suc j) c))"
        using Cons.prems(3) Suc by (metis Suc_less_eq)
      then show "isl (snd (gen (calls ?w2 + j) (ms ! j) c))" by simp
    qed
    from Cons.IH [OF k' r' f', of "i + 1"]
    have ih: "fst (try_models gen c (i + 1) n ms ?w2) = Some (r, ms ! k')"
      "visible (events (snd (try_models gen c (i + 1) n ms ?w2))) =
         visible (events ?w2) @ concat (map (step_trace gen c (calls ?w2) (i + 1) n ms) [0..<Suc k'])"
      "is_working (ms ! k') (MODEL_STATUS_CACHE (snd (try_models gen c (i + 1) n ms ?w2)))"
      "\<forall>j<k'. ms ! j \<noteq> ms ! k' \<longrightarrow>
         recorded (ms ! j) (MODEL_STATUS_CACHE (snd (try_models gen c (i + 1) n ms ?w2)))"
      by blast+
    have ev2: "visible (events ?w2) = visible (events w) @ step_trace gen c (calls w) i n (m # ms) 0"
      using e by (simp add: generate_content_eq step_trace_def)
    have seg: "map (step_trace gen c (calls w) i n (m # ms)) [0..<Suc (Suc k')] =
        step_trace gen c (calls w) i n (m # ms) 0 #
        map (step_trace gen c (calls ?w2) (i + 1) n ms) [0..<Suc k']"
      by (simp add: map_upt_Suc step_trace_Suc calls2 del: upt_Suc)
    have rec_m: "m \<noteq> ms ! k' \<longrightarrow>
        recorded m (MODEL_STATUS_CACHE (snd (try_models gen c (i + 1) n ms ?w2)))"
      using ih(1) by (auto intro!: try_models_recorded handle_error_recorded)
    have rec: "\<forall>j<Suc k'. (m # ms) ! j \<noteq> ms ! k' \<longrightarrow>
        recorded ((m # ms) ! j) (MODEL_STATUS_CACHE (snd (try_models gen c (i + 1) n ms ?w2)))"
    proof (intro allI impI)
      fix j assume j: "j < Suc k'" and ne: "(m # ms) ! j \<noteq> ms ! k'"
      show "recorded ((m # ms) ! j) (MODEL_STATUS_CACHE (snd (try_models gen c (i + 1) n ms ?w2)))"
      proof (cases j)
        case 0
        with ne rec_m show ?thesis by simp
      next
        case (Suc j')
        with j ne ih(4) show ?thesis by simp
      qed
    qed
    have "visible (events (snd (try_models gen c i n (m # ms) w))) =
        visible (events w) @ concat (map (step_trace gen c (calls w) i n (m # ms)) [0..<Suc (Suc k')])"
      by (simp only: step ih(2) ev2 seg concat.simps append_assoc)
    then show ?thesis
      unfolding Suc using ih(1,3) rec by (simp add: step del: upt_Suc try_models.simps)
  qed
qed


lemma call_gemini_eq:
  "call_gemini_with_model_iteration cfg gen contents w =
     (let cs = candidate_list cfg (clock w) (MODEL_STATUS_CACHE w);
          c1 = snd (filter_cached (clock w) (models_to_try cfg (MODEL_STATUS_CACHE w))
                      (MODEL_STATUS_CACHE w))
      in if cs = []
         then (None, w\<lparr>MODEL_STATUS_CACHE := c1, events := events w @ [Returned None]\<rparr>)
         else (fst (try_models gen contents 1 (length cs) cs (w\<lparr>MODEL_STATUS_CACHE := c1\<rparr>)),
               (snd (try_models gen contents 1 (length cs) cs (w\<lparr>MODEL_STATUS_CACHE := c1\<rparr>)))
                 \<lparr>events := events (snd (try_models gen contents 1 (length cs) cs
                                          (w\<lparr>MODEL_STATUS_CACHE := c1\<rparr>)))
                     @ [Returned (map_option snd
                          (fst (try_models gen contents 1 (length cs) cs
                                  (w\<lparr>MODEL_STATUS_CACHE := c1\<rparr>))))]\<rparr>))"
  by (simp add: call_gemini_with_model_iteration_def candidate_list_def Let_def
      split: prod.splits)

text \<open>
  Claim C4. Let \<open>cs\<close> be the candidate list of a call of the executor, not empty, and
  let the \<open>j\<close>-th candidate get the remote call number \<open>calls w + j\<close>.
  If every call fails, the executor returns \<open>None\<close>, has requested every candidate in
  order, and every candidate has a failure record afterwards. If candidate \<open>k\<close> is the
  first whose call succeeds, the executor returns its response and its name, has requested
  the candidates up to \<open>k\<close> and no other, candidate \<open>k\<close> is in the working set and the
  candidates before it have failure records. A result \<open>None\<close> means that every
  candidate was called and failed. In both traces, pacing apart, the only sleep is the
  back-off of 10 seconds, after a failure filed as rate limited of a candidate that is
  not the last (\<open>step_trace\<close>).
\<close>

theorem executor_exhaustion:
  assumes cs: "cs = candidate_list cfg (clock w) (MODEL_STATUS_CACHE w)"
    and ne: "cs \<noteq> []"
    and R: "R = call_gemini_with_model_iteration cfg gen contents w"
  shows
   "((\<forall>j<length cs. isl (snd (gen (calls w + j) (cs ! j) contents))) \<longrightarrow>
       fst R = None \<and>
       visible (events (snd R)) =
         visible (events w) @
         concat (map (step_trace gen contents (calls w) 1 (length cs) cs) [0..<length cs]) @
         [Returned None] \<and>
       (\<forall>m \<in> set cs. recorded m (MODEL_STATUS_CACHE (snd R)))) \<and>
    (\<forall>k r. k < length cs \<and> snd (gen (calls w + k) (cs ! k) contents) = Inr r \<and>
           (\<forall>j<k. isl (snd (gen (calls w + j) (cs ! j) contents))) \<longrightarrow>
       fst R = Some (r, cs ! k) \<and>
       visible (events (snd R)) =
         visible (events w) @
         concat (map (step_trace gen contents (calls w) 1 (length cs) cs) [0..<Suc k]) @
         [Returned (Some (cs ! k))] \<and>
       is_working (cs ! k) (MODEL_STATUS_CACHE (snd R)) \<and>
       (\<forall>j<k. recorded (cs ! j) (MODEL_STATUS_CACHE (snd R)))) \<and>
    (fst R = None \<longrightarrow> (\<forall>j<length cs. isl (snd (gen (calls w + j) (cs ! j) contents))))"
proof -
  let ?c1 = "snd (filter_cached (clock w) (models_to_try cfg (MODEL_STATUS_CACHE w))
                      (MODEL_STATUS_CACHE w))"
  let ?w1 = "w\<lparr>MODEL_STATUS_CACHE := ?c1\<rparr>"
  let ?T = "try_models gen contents 1 (length cs) cs ?w1"
  have Rfst: "fst R = fst ?T"
    using cs ne R by (simp add: call_gemini_eq Let_def)
  have Rev: "events (snd R) = events (snd ?T) @ [Returned (map_option snd (fst ?T))]"
    using cs ne R by (simp add: call_gemini_eq Let_def)
  have Rcache: "MODEL_STATUS_CACHE (snd R) = MODEL_STATUS_CACHE (snd ?T)"
    using cs ne R by (simp add: call_gemini_eq Let_def)
  have dist: "distinct cs"
    by (simp add: cs candidate_list_filter models_to_try_distinct)
  have A: "fst R = None \<and>
       visible (events (snd R)) =
         visible (events w) @
         concat (map (step_trace gen contents (calls w) 1 (length cs) cs) [0..<length cs]) @
         [Returned None] \<and>
       (\<forall>m \<in> set cs. recorded m (MODEL_STATUS_CACHE (snd R)))"
    if all: "\<forall>j<length cs. isl (snd (gen (calls w + j) (cs ! j) contents))"
  proof -
    from all have "\<forall>j<length cs. isl (snd (gen (calls ?w1 + j) (cs ! j) contents))" by simp
    with try_models_all_fail [where gen = gen and w = ?w1 and ms = cs and c = contents
        and i = 1 and n = "length cs"]
    show ?thesis by (simp add: Rfst Rev Rcache)
  qed
  have B: "fst R = Some (r, cs ! k) \<and>
       visible (events (snd R)) =
         visible (events w) @
         concat (map (step_trace gen contents (calls w) 1 (length cs) cs) [0..<Suc k]) @
         [Returned (Some (cs ! k))] \<and>
       is_working (cs ! k) (MODEL_STATUS_CACHE (snd R)) \<and>
       (\<forall>j<k. recorded (cs ! j) (MODEL_STATUS_CACHE (snd R)))"
    if k: "k < length cs" and r: "snd (gen (calls w + k) (cs ! k) contents) = Inr r"
      and f: "\<forall>j<k. isl (snd (gen (calls w + j) (cs ! j) contents))" for k r
  proof -
    from r have r': "snd (gen (calls ?w1 + k) (cs ! k) contents) = Inr r" by simp
    from f have f': "\<forall>j<k. isl (snd (gen (calls ?w1 + j) (cs ! j) contents))" by simp
    have ne': "\<forall>j<k. cs ! j \<noteq> cs ! k"
      using dist k by (auto simp: nth_eq_iff_index_eq)
    from try_models_first_ok [where gen = gen and w = ?w1 and ms = cs and c = contents
        and i = 1 and n = "length cs" and k = k and r = r] k r' f' ne'
    show ?thesis by (simp add: Rfst Rev Rcache del: upt_Suc)
  qed
  have C: "\<forall>j<length cs. isl (snd (gen (calls w + j) (cs ! j) contents))" if none: "fst R = None"
  proof (rule ccontr)
    assume "\<not> (\<forall>j<length cs. isl (snd (gen (calls w + j) (cs ! j) contents)))"
    then have "\<exists>k. k < length cs \<and> \<not> isl (snd (gen (calls w + k) (cs ! k) contents))" by blast
    then obtain k where k: "k < length cs \<and> \<not> isl (snd (gen (calls w + k) (cs ! k) contents))"
      and least: "\<forall>j<k. \<not> (j < length cs \<and> \<not> isl (snd (gen (calls w + j) (cs ! j) contents)))"
      using exists_least_iff [of "\<lambda>k. k < length cs \<and> \<not> isl (snd (gen (calls w + k) (cs ! k) contents))"]
      by blast
    from k obtain r where r: "snd (gen (calls w + k) (cs ! k) contents) = Inr r"
      by (cases "snd (gen (calls w + k) (cs ! k) contents)") auto
    from least k have "\<forall>j<k. isl (snd (gen (calls w + j) (cs ! j) contents))" by auto
    from B [OF _ r this] k none show False by simp
  qed
  show ?thesis using A B C by blast
qed

text \<open>
  The theorem on the candidates \<^verbatim>\<open>p\<close> and \<^verbatim>\<open>f\<close>: when \<^verbatim>\<open>p\<close> is rate limited and \<^verbatim>\<open>f\<close>
  answers, and when both are rate limited (no back-off after the last candidate).
\<close>

lemma rate_429: "rate_limited_kind ''429 Too Many Requests''"
  by code_simp

lemma two_candidates:
  "candidate_list \<lparr>PRIMARY_MODEL = ''p'', FALLBACK_MODEL = ''f'', AVAILABLE_MODELS = []\<rparr> 0
     reset_model_cache = [''p'', ''f'']"
proof -
  have "list_of_dlist (working reset_model_cache) = []"
    by (simp add: reset_model_cache_def)
  then show ?thesis
    by (simp add: candidate_list_filter models_to_try_def)
qed

theorem executor_exhaustion_witness:
  "fst (call_gemini_with_model_iteration
          \<lparr>PRIMARY_MODEL = ''p'', FALLBACK_MODEL = ''f'', AVAILABLE_MODELS = []\<rparr>
          (\<lambda>n m c. (1, if m = ''p'' then Inl ''429 Too Many Requests'' else Inr (7::nat))) ()
          \<lparr>MODEL_STATUS_CACHE = reset_model_cache, request_times = [], clock = 0, calls = 0,
           events = []\<rparr>) = Some (7, ''f'') \<and>
   visible (events (snd (call_gemini_with_model_iteration
          \<lparr>PRIMARY_MODEL = ''p'', FALLBACK_MODEL = ''f'', AVAILABLE_MODELS = []\<rparr>
          (\<lambda>n m c. (1, if m = ''p'' then Inl ''429 Too Many Requests'' else Inr (7::nat))) ()
          \<lparr>MODEL_STATUS_CACHE = reset_model_cache, request_times = [], clock = 0, calls = 0,
           events = []\<rparr>)))
     = [Request ''p'', Sleep Backoff 10, Request ''f'', Returned (Some ''f'')] \<and>
   fst (call_gemini_with_model_iteration
          \<lparr>PRIMARY_MODEL = ''p'', FALLBACK_MODEL = ''f'', AVAILABLE_MODELS = []\<rparr>
          (\<lambda>n m c. (1, Inl ''429 Too Many Requests'' :: string + nat)) ()
          \<lparr>MODEL_STATUS_CACHE = reset_model_cache, request_times = [], clock = 0, calls = 0,
           events = []\<rparr>) = None \<and>
   visible (events (snd (call_gemini_with_model_iteration
          \<lparr>PRIMARY_MODEL = ''p'', FALLBACK_MODEL = ''f'', AVAILABLE_MODELS = []\<rparr>
          (\<lambda>n m c. (1, Inl ''429 Too Many Requests'' :: string + nat)) ()
          \<lparr>MODEL_STATUS_CACHE = reset_model_cache, request_times = [], clock = 0, calls = 0,
           events = []\<rparr>)))
     = [Request ''p'', Sleep Backoff 10, Request ''f'', Returned None]"
proof -
  let ?cfg = "\<lparr>PRIMARY_MODEL = ''p'', FALLBACK_MODEL = ''f'', AVAILABLE_MODELS = []\<rparr>"
  let ?w = "\<lparr>MODEL_STATUS_CACHE = reset_model_cache, request_times = [], clock = 0, calls = 0,
           events = []\<rparr>"
  let ?g1 = "\<lambda>(n::nat) (m::string) (c::unit).
               (1::real, if m = ''p'' then Inl ''429 Too Many Requests'' else Inr (7::nat))"
  let ?g2 = "\<lambda>(n::nat) (m::string) (c::unit). (1::real, Inl ''429 Too Many Requests'' :: string + nat)"
  have cs: "[''p'', ''f''] = candidate_list ?cfg (clock ?w) (MODEL_STATUS_CACHE ?w)"
    using two_candidates by simp
  have one: "fst (call_gemini_with_model_iteration ?cfg ?g1 () ?w) = Some (7, ''f'') \<and>
     visible (events (snd (call_gemini_with_model_iteration ?cfg ?g1 () ?w)))
       = [Request ''p'', Sleep Backoff 10, Request ''f'', Returned (Some ''f'')]"
    using executor_exhaustion [OF cs _ refl, of ?g1 "()", THEN conjunct2, THEN conjunct1,
        rule_format, of 1 7] rate_429
    by (simp add: step_trace_def)
  have two: "fst (call_gemini_with_model_iteration ?cfg ?g2 () ?w) = None \<and>
     visible (events (snd (call_gemini_with_model_iteration ?cfg ?g2 () ?w)))
       = [Request ''p'', Sleep Backoff 10, Request ''f'', Returned None]"
    using executor_exhaustion [OF cs _ refl, of ?g2 "()", THEN conjunct1] rate_429
    by (simp add: step_trace_def)
  show ?thesis using one two by simp
qed


lemma any_in_iff: "any_in ks s \<longleftrightarrow> (\<exists>k \<in> set ks. \<exists>p q. s = p @ k @ q)"
  by (simp add: any_in_def list_ex_iff str_contains_iff)

text \<open>
  Claim C6. When the remote call on a candidate raises with string \<open>e\<close>, the executor
  files the candidate, at the time the call returned, under \<^verbatim>\<open>not_found\<close> if \<open>e\<close> has a
  not-found marker, else under \<^verbatim>\<open>quota_exhausted\<close> if it has the zero-quota marker, else
  under \<^verbatim>\<open>rate_limited\<close> if it has a rate marker, else under \<^verbatim>\<open>other_errors\<close> with the
  first 200 characters of \<open>e\<close>; no other bucket changes. The markers are looked up in
  the lower-cased string.
\<close>

theorem error_classification:
  "(gen (calls w) model contents = (took, Inl e) \<longrightarrow>
      MODEL_STATUS_CACHE (snd (try_models gen contents i n [model] w)) =
        (let c = MODEL_STATUS_CACHE w; now = clock (throttle_requests w) + took in
         if is_not_found e then c\<lparr>not_found := insert model (not_found c)\<rparr>
         else if is_quota_exhausted e
         then c\<lparr>quota_exhausted := (quota_exhausted c)(model \<mapsto> now)\<rparr>
         else if is_rate_limit e
         then c\<lparr>rate_limited := (rate_limited c)(model \<mapsto> now)\<rparr>
         else c\<lparr>other_errors := (other_errors c)(model \<mapsto> (take 200 e, now))\<rparr>)) \<and>
   (is_not_found e \<longleftrightarrow>
      (\<exists>k \<in> set [''404'', ''not_found'', ''not found'', ''is not found''].
         \<exists>p q. lower e = p @ k @ q)) \<and>
   (is_quota_exhausted e \<longleftrightarrow> (\<exists>p q. lower e = p @ ''limit: 0'' @ q)) \<and>
   (is_rate_limit e \<longleftrightarrow>
      (\<exists>k \<in> set [''429'', ''resource_exhausted'', ''quota'', ''rate limit'', ''too many requests''].
         \<exists>p q. lower e = p @ k @ q))"
proof (intro conjI impI)
  assume g: "gen (calls w) model contents = (took, Inl e)"
  then show "MODEL_STATUS_CACHE (snd (try_models gen contents i n [model] w)) =
        (let c = MODEL_STATUS_CACHE w; now = clock (throttle_requests w) + took in
         if is_not_found e then c\<lparr>not_found := insert model (not_found c)\<rparr>
         else if is_quota_exhausted e
         then c\<lparr>quota_exhausted := (quota_exhausted c)(model \<mapsto> now)\<rparr>
         else if is_rate_limit e
         then c\<lparr>rate_limited := (rate_limited c)(model \<mapsto> now)\<rparr>
         else c\<lparr>other_errors := (other_errors c)(model \<mapsto> (take 200 e, now))\<rparr>)"
    by (simp add: generate_content_eq handle_error_cache cache_model_failure_def Let_def)
next
  show "is_not_found e \<longleftrightarrow>
      (\<exists>k \<in> set [''404'', ''not_found'', ''not found'', ''is not found''].
         \<exists>p q. lower e = p @ k @ q)"
    unfolding is_not_found_def any_in_iff ..
  show "is_quota_exhausted e \<longleftrightarrow> (\<exists>p q. lower e = p @ ''limit: 0'' @ q)"
    unfolding is_quota_exhausted_def str_contains_iff ..
  show "is_rate_limit e \<longleftrightarrow>
      (\<exists>k \<in> set [''429'', ''resource_exhausted'', ''quota'', ''rate limit'', ''too many requests''].
         \<exists>p q. lower e = p @ k @ q)"
    unfolding is_rate_limit_def any_in_iff ..
qed

text \<open>
  The theorem on four error strings, one per kind; the first carries all three markers
  and is filed under \<^verbatim>\<open>not_found\<close>, the second the zero-quota and a rate marker and is
  filed under \<^verbatim>\<open>quota_exhausted\<close>.
\<close>

lemma classify_examples:
  "is_not_found ''404 NOT_FOUND, quota limit: 0''"
  "\<not> is_not_found ''429 RESOURCE_EXHAUSTED, limit: 0''"
  "is_quota_exhausted ''429 RESOURCE_EXHAUSTED, limit: 0''"
  "\<not> is_not_found ''429 Too Many Requests''"
  "\<not> is_quota_exhausted ''429 Too Many Requests''"
  "is_rate_limit ''429 Too Many Requests''"
  "\<not> is_not_found ''500 Internal''"
  "\<not> is_quota_exhausted ''500 Internal''"
  "\<not> is_rate_limit ''500 Internal''"
  by code_simp+

theorem error_classification_witness:
  "not_found (MODEL_STATUS_CACHE (snd (try_models
       (\<lambda>n m c. (2, Inl ''404 NOT_FOUND, quota limit: 0'' :: string + nat)) () 1 1 [''m'']
       \<lparr>MODEL_STATUS_CACHE = reset_model_cache, request_times = [], clock = 7, calls = 0,
        events = []\<rparr>))) = {''m''} \<and>
   quota_exhausted (MODEL_STATUS_CACHE (snd (try_models
       (\<lambda>n m c. (2, Inl ''429 RESOURCE_EXHAUSTED, limit: 0'' :: string + nat)) () 1 1 [''m'']
       \<lparr>MODEL_STATUS_CACHE = reset_model_cache, request_times = [], clock = 7, calls = 0,
        events = []\<rparr>))) ''m'' = Some 9 \<and>
   rate_limited (MODEL_STATUS_CACHE (snd (try_models
       (\<lambda>n m c. (2, Inl ''429 Too Many Requests'' :: string + nat)) () 1 1 [''m'']
       \<lparr>MODEL_STATUS_CACHE = reset_model_cache, request_times = [], clock = 7, calls = 0,
        events = []\<rparr>))) ''m'' = Some 9 \<and>
   other_errors (MODEL_STATUS_CACHE (snd (try_models
       (\<lambda>n m c. (2, Inl ''500 Internal'' :: string + nat)) () 1 1 [''m'']
       \<lparr>MODEL_STATUS_CACHE = reset_model_cache, request_times = [], clock = 7, calls = 0,
        events = []\<rparr>))) ''m'' = Some (''500 Internal'', 9)"
proof -
  let ?w = "\<lparr>MODEL_STATUS_CACHE = reset_model_cache, request_times = [], clock = 7, calls = 0,
        events = []\<rparr>"
  have clk: "clock (throttle_requests ?w) = 7"
    by (simp add: throttle_requests_def)
  show ?thesis
    using
      error_classification [where gen = "\<lambda>n m c. (2, Inl ''404 NOT_FOUND, quota limit: 0'' :: string + nat)"
        and w = ?w and model = "''m''" and contents = "()" and took = 2
        and e = "''404 NOT_FOUND, quota limit: 0''" and i = 1 and n = 1, THEN conjunct1]
      error_classification [where gen = "\<lambda>n m c. (2, Inl ''429 RESOURCE_EXHAUSTED, limit: 0'' :: string + nat)"
        and w = ?w and model = "''m''" and contents = "()" and took = 2
        and e = "''429 RESOURCE_EXHAUSTED, limit: 0''" and i = 1 and n = 1, THEN conjunct1]
      error_classification [where gen = "\<lambda>n m c. (2, Inl ''429 Too Many Requests'' :: string + nat)"
        and w = ?w and model = "''m''" and contents = "()" and took = 2
        and e = "''429 Too Many Requests''" and i = 1 and n = 1, THEN conjunct1]
      error_classification [where gen = "\<lambda>n m c. (2, Inl ''500 Internal'' :: string + nat)"
        and w = ?w and model = "''m''" and contents = "()" and took = 2
        and e = "''500 Internal''" and i = 1 and n = 1, THEN conjunct1]
      classify_examples clk
    by (simp add: Let_def reset_model_cache_def)
qed

section \<open>Properties of the handler\<close>

text \<open>
  On a well-formed response the loops of the handler compute what the specification
  words: the last text, the batch of invocations run in order, and the two turns.
\<close>

lemma last_text_Nil [simp]: "last_text [] t = t"
  by (simp add: last_text_def)

lemma last_text_Cons [simp]:
  "last_text (p # ps) t = last_text ps (if truthy (part_text p) then the (part_text p) else t)"
  by (simp add: last_text_def split: list.splits)

lemma last_text_append [simp]: "last_text (ps @ qs) t = last_text qs (last_text ps t)"
  by (induction ps arbitrary: t) simp_all

lemma last_text_idem [simp]: "last_text ps (last_text ps t) = last_text ps t"
  by (simp add: last_text_def split: list.splits)
































text \<open>
  Claim C2 fails on the code. The first call of the executor answers with the text
  \<^verbatim>\<open>partial\<close> and a call of \<^verbatim>\<open>tool\<close>; the tool is run; the second call of the executor fails
  on both candidates. The loop is left with the text and the tool result in its
  variables and \<^verbatim>\<open>response = None\<close>; line 726 then raises, and the answer is the failure
  answer, with no tool calls.
\<close>

theorem message_midloop_failure:
  "fst (message \<lparr>PRIMARY_MODEL = ''p'', FALLBACK_MODEL = ''f'', AVAILABLE_MODELS = []\<rparr>
          (\<lambda>n m c. if n = 0
             then (1, Inr \<lparr>candidates = Some [\<lparr>content = Some \<lparr>parts = Some
               [\<lparr>part_text = Some ''partial'',
                 function_call = Some \<lparr>name = Some ''tool'', args = Some [(''x'', 7)]\<rparr>\<rparr>]\<rparr>\<rparr>]\<rparr>)
             else (1, Inl ''500 internal''))
          (\<lambda>f a. sum_list (map snd a) + (1::nat)) ''hi''
          \<lparr>MODEL_STATUS_CACHE = reset_model_cache, request_times = [], clock = 1000, calls = 0,
           events = []\<rparr>) = Reply_error NoneType_has_no_candidates \<and>
   tool_calls (fst (message \<lparr>PRIMARY_MODEL = ''p'', FALLBACK_MODEL = ''f'', AVAILABLE_MODELS = []\<rparr>
          (\<lambda>n m c. if n = 0
             then (1, Inr \<lparr>candidates = Some [\<lparr>content = Some \<lparr>parts = Some
               [\<lparr>part_text = Some ''partial'',
                 function_call = Some \<lparr>name = Some ''tool'', args = Some [(''x'', 7)]\<rparr>\<rparr>]\<rparr>\<rparr>]\<rparr>)
             else (1, Inl ''500 internal''))
          (\<lambda>f a. sum_list (map snd a) + (1::nat)) ''hi''
          \<lparr>MODEL_STATUS_CACHE = reset_model_cache, request_times = [], clock = 1000, calls = 0,
           events = []\<rparr>)) = [] \<and>
   \<not> success (fst (message \<lparr>PRIMARY_MODEL = ''p'', FALLBACK_MODEL = ''f'', AVAILABLE_MODELS = []\<rparr>
          (\<lambda>n m c. if n = 0
             then (1, Inr \<lparr>candidates = Some [\<lparr>content = Some \<lparr>parts = Some
               [\<lparr>part_text = Some ''partial'',
                 function_call = Some \<lparr>name = Some ''tool'', args = Some [(''x'', 7)]\<rparr>\<rparr>]\<rparr>\<rparr>]\<rparr>)
             else (1, Inl ''500 internal''))
          (\<lambda>f a. sum_list (map snd a) + (1::nat)) ''hi''
          \<lparr>MODEL_STATUS_CACHE = reset_model_cache, request_times = [], clock = 1000, calls = 0,
           events = []\<rparr>)) \<and>
   map_sum fst lr_response (message_loop \<lparr>PRIMARY_MODEL = ''p'', FALLBACK_MODEL = ''f'', AVAILABLE_MODELS = []\<rparr>
          (\<lambda>n m c. if n = 0
             then (1, Inr \<lparr>candidates = Some [\<lparr>content = Some \<lparr>parts = Some
               [\<lparr>part_text = Some ''partial'',
                 function_call = Some \<lparr>name = Some ''tool'', args = Some [(''x'', 7)]\<rparr>\<rparr>]\<rparr>\<rparr>]\<rparr>)
             else (1, Inl ''500 internal''))
          (\<lambda>f a. sum_list (map snd a) + (1::nat))
          \<lparr>candidates = Some [\<lparr>content = Some \<lparr>parts = Some
               [\<lparr>part_text = Some ''partial'',
                 function_call = Some \<lparr>name = Some ''tool'', args = Some [(''x'', 7)]\<rparr>\<rparr>]\<rparr>\<rparr>]\<rparr> 0 [] []
          [\<lparr>role = ''user'', turn_parts = [Text ''hi'']\<rparr>]
          (snd (call_gemini_with_model_iteration \<lparr>PRIMARY_MODEL = ''p'', FALLBACK_MODEL = ''f'', AVAILABLE_MODELS = []\<rparr>
                  (\<lambda>n m c. if n = 0
             then (1, Inr \<lparr>candidates = Some [\<lparr>content = Some \<lparr>parts = Some
               [\<lparr>part_text = Some ''partial'',
                 function_call = Some \<lparr>name = Some ''tool'', args = Some [(''x'', 7)]\<rparr>\<rparr>]\<rparr>\<rparr>]\<rparr>)
             else (1, Inl ''500 internal''))
                  [\<lparr>role = ''user'', turn_parts = [Text ''hi'']\<rparr> :: (nat, nat) turn]
                  \<lparr>MODEL_STATUS_CACHE = reset_model_cache, request_times = [], clock = 1000, calls = 0,
           events = []\<rparr>))) = Inr None \<and>
   map_sum fst lr_final_text (message_loop \<lparr>PRIMARY_MODEL = ''p'', FALLBACK_MODEL = ''f'', AVAILABLE_MODELS = []\<rparr>
          (\<lambda>n m c. if n = 0
             then (1, Inr \<lparr>candidates = Some [\<lparr>content = Some \<lparr>parts = Some
               [\<lparr>part_text = Some ''partial'',
                 function_call = Some \<lparr>name = Some ''tool'', args = Some [(''x'', 7)]\<rparr>\<rparr>]\<rparr>\<rparr>]\<rparr>)
             else (1, Inl ''500 internal''))
          (\<lambda>f a. sum_list (map snd a) + (1::nat))
          \<lparr>candidates = Some [\<lparr>content = Some \<lparr>parts = Some
               [\<lparr>part_text = Some ''partial'',
                 function_call = Some \<lparr>name = Some ''tool'', args = Some [(''x'', 7)]\<rparr>\<rparr>]\<rparr>\<rparr>]\<rparr> 0 [] []
          [\<lparr>role = ''user'', turn_parts = [Text ''hi'']\<rparr>]
          (snd (call_gemini_with_model_iteration \<lparr>PRIMARY_MODEL = ''p'', FALLBACK_MODEL = ''f'', AVAILABLE_MODELS = []\<rparr>
                  (\<lambda>n m c. if n = 0
             then (1, Inr \<lparr>candidates = Some [\<lparr>content = Some \<lparr>parts = Some
               [\<lparr>part_text = Some ''partial'',
                 function_call = Some \<lparr>name = Some ''tool'', args = Some [(''x'', 7)]\<rparr>\<rparr>]\<rparr>\<rparr>]\<rparr>)
             else (1, Inl ''500 internal''))
                  [\<lparr>role = ''user'', turn_parts = [Text ''hi'']\<rparr> :: (nat, nat) turn]
                  \<lparr>MODEL_STATUS_CACHE = reset_model_cache, request_times = [], clock = 1000, calls = 0,
           events = []\<rparr>))) = Inr ''partial'' \<and>
   map_sum fst lr_tool_results (message_loop \<lparr>PRIMARY_MODEL = ''p'', FALLBACK_MODEL = ''f'', AVAILABLE_MODELS = []\<rparr>
          (\<lambda>n m c. if n = 0
             then (1, Inr \<lparr>candidates = Some [\<lparr>content = Some \<lparr>parts = Some
               [\<lparr>part_text = Some ''partial'',
                 function_call = Some \<lparr>name = Some ''tool'', args = Some [(''x'', 7)]\<rparr>\<rparr>]\<rparr>\<rparr>]\<rparr>)
             else (1, Inl ''500 internal''))
          (\<lambda>f a. sum_list (map snd a) + (1::nat))
          \<lparr>candidates = Some [\<lparr>content = Some \<lparr>parts = Some
               [\<lparr>part_text = Some ''partial'',
                 function_call = Some \<lparr>name = Some ''tool'', args = Some [(''x'', 7)]\<rparr>\<rparr>]\<rparr>\<rparr>]\<rparr> 0 [] []
          [\<lparr>role = ''user'', turn_parts = [Text ''hi'']\<rparr>]
          (snd (call_gemini_with_model_iteration \<lparr>PRIMARY_MODEL = ''p'', FALLBACK_MODEL = ''f'', AVAILABLE_MODELS = []\<rparr>
                  (\<lambda>n m c. if n = 0
             then (1, Inr \<lparr>candidates = Some [\<lparr>content = Some \<lparr>parts = Some
               [\<lparr>part_text = Some ''partial'',
                 function_call = Some \<lparr>name = Some ''tool'', args = Some [(''x'', 7)]\<rparr>\<rparr>]\<rparr>\<rparr>]\<rparr>)
             else (1, Inl ''500 internal''))
                  [\<lparr>role = ''user'', turn_parts = [Text ''hi'']\<rparr> :: (nat, nat) turn]
                  \<lparr>MODEL_STATUS_CACHE = reset_model_cache, request_times = [], clock = 1000, calls = 0,
           events = []\<rparr>))) = Inr [(Some ''tool'', [(''x'', 7)], 8)]"
  by code_simp

end
